theory Spec2Isabelle
  imports Complex_Main "HOL-Library.Log_Nat"
begin

section \<open>The heating controller of \<^verbatim>\<open>start.py\<close>\<close>

text \<open>
  \<^verbatim>\<open>start.py\<close> is one class, \<^verbatim>\<open>MqttClient\<close>, whose callback \<^verbatim>\<open>on_message\<close> handles
  two MQTT topics: sensor telemetry and power results. The model below follows the
  callback line by line. Mutation of \<^verbatim>\<open>self\<close> is explicit state passing, everything the
  callback does to the outside (log lines, published commands, the pickle written) is
  returned as a list of effects in program order, and every exception of the source is a
  branch: an inner \<^verbatim>\<open>except\<close> leaves its variable unbound, the outer \<^verbatim>\<open>except\<close> ends the
  callback with the line \<^verbatim>\<open>Error occured\<close>.

  Library code (\<^verbatim>\<open>json.loads\<close>, \<^verbatim>\<open>datetime.strptime\<close>, \<^verbatim>\<open>datetime.timestamp\<close>,
  \<^verbatim>\<open>time.time\<close>, the file system under \<^verbatim>\<open>save_states\<close>) is not part of the repository:
  it is the record \<open>env\<close>, and the theorems hold for every such environment.

  Numbers: Python floats are modelled as exact rationals. For the two thresholds this is
  faithful on every finite reading: in IEEE double arithmetic \<^verbatim>\<open>21.8 + 0.2\<close> is exactly
  \<^verbatim>\<open>22.0\<close>, and \<^verbatim>\<open>21.8 - 0.2\<close> is the double nearest to 21.6, so a double or an integer
  is below it exactly when it is below 21.6. NaN and the infinities are outside the model.
  Times are seconds since 1970. The time stamp of a report is a whole number of seconds
  (the format has no fraction of a second), the clock has a fraction. The float
  arithmetic on them, lines 135 and 158, is modelled with its rounding: each operation
  gives the double nearest to the exact result (\<open>fl\<close>).

  Start-up: a pickle file that exists and cannot be read makes \<^verbatim>\<open>__init__\<close> fail before
  any callback runs; the model starts from a file that is absent or holds a queue.
\<close>

subsection \<open>Values decoded from JSON\<close>

datatype pyval =
    PNone
  | PBool bool
  | PInt int
  | PFloat rat
  | PStr string
  | PList "pyval list"
  | PDict "(string \<times> pyval) list"

text \<open>Truth value of an object, as \<^verbatim>\<open>if x\<close> and \<^verbatim>\<open>x and y\<close> test it.\<close>

fun truthy :: "pyval \<Rightarrow> bool" where
  "truthy PNone = False"
| "truthy (PBool b) = b"
| "truthy (PInt i) = (i \<noteq> 0)"
| "truthy (PFloat r) = (r \<noteq> 0)"
| "truthy (PStr s) = (s \<noteq> [])"
| "truthy (PList xs) = (xs \<noteq> [])"
| "truthy (PDict kvs) = (kvs \<noteq> [])"

text \<open>
  \<^verbatim>\<open>v[key]\<close> with a string key: the value of a dictionary entry; \<open>None\<close> stands for the
  exception (KeyError on a dictionary without the key, TypeError on every other object).
\<close>

fun subscript :: "pyval \<Rightarrow> string \<Rightarrow> pyval option" where
  "subscript (PDict kvs) key = map_of kvs key"
| "subscript _ key = None"

fun is_substring :: "string \<Rightarrow> string \<Rightarrow> bool" where
  "is_substring p [] = (p = [])"
| "is_substring p (c # cs) = (take (length p) (c # cs) = p \<or> is_substring p cs)"

text \<open>
  \<^verbatim>\<open>key in v\<close> with a string key: key membership on a dictionary, element membership on
  a list, substring test on a string, TypeError (\<open>None\<close>) on the rest.
\<close>

fun py_in :: "string \<Rightarrow> pyval \<Rightarrow> bool option" where
  "py_in key (PDict kvs) = Some (key \<in> set (map fst kvs))"
| "py_in key (PList xs) = Some (PStr key \<in> set xs)"
| "py_in key (PStr s) = Some (is_substring key s)"
| "py_in key _ = None"

text \<open>The number an object stands for in an ordering comparison with a float.\<close>

fun num_of :: "pyval \<Rightarrow> rat option" where
  "num_of (PInt i) = Some (of_int i)"
| "num_of (PFloat r) = Some r"
| "num_of (PBool b) = Some (if b then 1 else 0)"
| "num_of _ = None"

text \<open>\<^verbatim>\<open>v > x\<close> and \<^verbatim>\<open>v < x\<close> for a float \<open>x\<close>; \<open>None\<close> is the TypeError.\<close>

definition py_gt :: "pyval \<Rightarrow> rat \<Rightarrow> bool option" where
  "py_gt v x = (case num_of v of None \<Rightarrow> None | Some r \<Rightarrow> Some (r > x))"

definition py_lt :: "pyval \<Rightarrow> rat \<Rightarrow> bool option" where
  "py_lt v x = (case num_of v of None \<Rightarrow> None | Some r \<Rightarrow> Some (r < x))"

text \<open>\<^verbatim>\<open>round(x)\<close> of a float: the nearest integer, a tie going to the even one.\<close>

definition py_round :: "rat \<Rightarrow> int" where
  "py_round x =
     (let f = \<lfloor>x\<rfloor>; d = x - of_int f
      in if d < 1 / 2 then f
         else if 1 / 2 < d then f + 1
         else if even f then f else f + 1)"

text \<open>
  Double precision. \<open>binexp x\<close> is the binary exponent of \<open>x \<noteq> 0\<close>, the \<open>e\<close> with
  \<open>2 ^ e \<le> \<bar>x\<bar> < 2 ^ (e + 1)\<close>; \<open>fl x\<close> is the double nearest to \<open>x\<close>, a tie going
  to the even significand: a multiple of the unit in the last of 53 places, the unit
  being at least \<open>2 ^ - 1074\<close>. Results beyond the largest double (the infinities) are
  outside the model.
\<close>

definition binexp :: "rat \<Rightarrow> int" where
  "binexp x =
     (let m = \<bar>x\<bar>
      in if 1 \<le> m then bitlen \<lfloor>m\<rfloor> - 1 else - bitlen (\<lceil>1 / m\<rceil> - 1))"

definition fl :: "rat \<Rightarrow> rat" where
  "fl x =
     (if x = 0 then 0
      else (let u = power_int 2 (max (binexp x) (- 1022) - 52)
            in of_int (py_round (x / u)) * u))"

subsection \<open>Module level: constants, history, comfort period\<close>

definition consigne :: rat where
  "consigne = 218 / 10"

definition hyst :: rat where
  "hyst = 2 / 10"

record datetime =
  year :: nat
  month :: nat
  day :: nat
  hour :: nat
  minute :: nat
  second :: nat

text \<open>One entry of the queue: the dictionary appended at line 131.\<close>

record reading =
  date :: datetime
  temperature :: pyval
  humidity :: pyval

text \<open>
  The queue is \<^verbatim>\<open>deque(maxlen=100)\<close>, here the list of its items, oldest first.
  \<^verbatim>\<open>append\<close> on a bounded deque adds on the right and, when the length then exceeds
  \<^verbatim>\<open>maxlen\<close>, removes one item on the left.
\<close>

definition maxlen :: nat where
  "maxlen = 100"

definition deque_append :: "'a list \<Rightarrow> 'a \<Rightarrow> 'a list" where
  "deque_append q x = (let q' = q @ [x] in if maxlen < length q' then tl q' else q')"

text \<open>
  \<^verbatim>\<open>read_states\<close>: the argument is what the pickle file holds, \<open>None\<close> when there is no
  such file; then the queue is a new empty deque.
\<close>

definition read_states :: "reading list option \<Rightarrow> reading list" where
  "read_states f = (case f of Some states \<Rightarrow> states | None \<Rightarrow> [])"

definition is_confort :: "datetime \<Rightarrow> bool" where
  "is_confort d =
     (if 6 \<le> hour d \<and> hour d < 8 then True
      else if 19 \<le> hour d \<and> hour d < 21 then True
      else False)"

subsection \<open>The client: state, environment, effects\<close>

record mqtt_client =
  queue :: "reading list"
  status :: pyval
  command_sent :: bool
  forced_ts :: rat

record msg =
  topic :: string
  payload :: string

text \<open>
  The environment of one callback: \<open>json_loads\<close>, \<open>strptime\<close> and \<open>timestamp\<close>
  return \<open>None\<close> where the library raises; \<open>timestamp\<close> is \<^verbatim>\<open>datetime.timestamp\<close> in
  the host's time zone, a whole number of seconds, which raises for dates at the ends of
  the calendar; \<open>time_time\<close> is the clock when the callback runs, and \<open>save_ok\<close> tells
  whether \<^verbatim>\<open>save_states\<close> can write its file (it raises otherwise).
\<close>

record env =
  json_loads :: "string \<Rightarrow> pyval option"
  strptime :: "string \<Rightarrow> string \<Rightarrow> datetime option"
  timestamp :: "datetime \<Rightarrow> int option"
  time_time :: rat
  save_ok :: bool

datatype log =
    Debug_message string pyval
  | Error_timestamp
  | Error_temperature
  | Error_humidity
  | Info_reading reading
  | Not_forced
  | Confort_period
  | Hot_enough
  | Not_hot_enough
  | Manually_forced pyval int
  | Heater_is pyval
  | Heater_is_forced pyval
  | Error_occured
  | Asking_power_ON
  | Asking_power_OFF
  | Connected
  | Subscribing

datatype effect =
    Log log
  | Subscribe string
  | Publish string string
  | Save_states "reading list"

subsection \<open>Commands\<close>

definition poweron :: "mqtt_client \<Rightarrow> mqtt_client \<times> effect list" where
  "poweron self =
     (self\<lparr>command_sent := True\<rparr>,
      [Log Asking_power_ON, Publish ''cmnd/tasmota_9DA6D1/POWER'' ''ON''])"

definition poweroff :: "mqtt_client \<Rightarrow> mqtt_client \<times> effect list" where
  "poweroff self =
     (self\<lparr>command_sent := True\<rparr>,
      [Log Asking_power_OFF, Publish ''cmnd/tasmota_9DA6D1/POWER'' ''OFF''])"

text \<open>\<^verbatim>\<open>__init__\<close> (lines 72 to 79) and \<^verbatim>\<open>on_connect\<close>.\<close>

definition init :: "reading list option \<Rightarrow> mqtt_client" where
  "init f = \<lparr>queue = read_states f, status = PNone, command_sent = False, forced_ts = 0\<rparr>"

definition on_connect :: "mqtt_client \<Rightarrow> mqtt_client \<times> effect list" where
  "on_connect self =
     (self\<lparr>command_sent := True\<rparr>,
      [Log Connected, Log Subscribing,
       Subscribe ''tele/tasmota_9DA6D1/SENSOR'',
       Subscribe ''stat/tasmota_9DA6D1/RESULT'',
       Publish ''cmnd/tasmota_9DA6D1/POWER'' ''Hello world!''])"

subsection \<open>Telemetry: lines 107 to 159\<close>

text \<open>
  The three inner \<^verbatim>\<open>try\<close> blocks. Each binds its variable or, on any exception, logs
  and leaves it unbound (\<open>None\<close>). \<^verbatim>\<open>strptime\<close> raises TypeError on a value that is not
  a string.
\<close>

definition sensor_date :: "env \<Rightarrow> pyval \<Rightarrow> datetime option" where
  "sensor_date e message =
     (case subscript message ''Time'' of
        Some (PStr s) \<Rightarrow> strptime e s ''%Y-%m-%dT%H:%M:%S''
      | _ \<Rightarrow> None)"

definition sensor_temperature :: "pyval \<Rightarrow> pyval option" where
  "sensor_temperature message =
     (case subscript message ''SI7021'' of
        None \<Rightarrow> None
      | Some si \<Rightarrow> subscript si ''Temperature'')"

definition sensor_humidity :: "pyval \<Rightarrow> pyval option" where
  "sensor_humidity message =
     (case subscript message ''SI7021'' of
        None \<Rightarrow> None
      | Some si \<Rightarrow> subscript si ''Humidity'')"

definition parse_errors :: "env \<Rightarrow> pyval \<Rightarrow> effect list" where
  "parse_errors e message =
     (if sensor_date e message = None then [Log Error_timestamp] else []) @
     (if sensor_temperature message = None then [Log Error_temperature] else []) @
     (if sensor_humidity message = None then [Log Error_humidity] else [])"

text \<open>
  Line 129, \<^verbatim>\<open>if temperature and humidity and date\<close>, evaluated left to right with
  short circuit: reading an unbound variable raises (\<open>Raises\<close>), a false operand ends
  the test (\<open>Skips\<close>) before the later variables are read, and a \<^verbatim>\<open>datetime\<close> is
  always true.
\<close>

datatype guard = Raises | Skips | Holds reading

definition state_guard :: "pyval option \<Rightarrow> pyval option \<Rightarrow> datetime option \<Rightarrow> guard" where
  "state_guard t h d =
     (case t of
        None \<Rightarrow> Raises
      | Some tv \<Rightarrow>
          if \<not> truthy tv then Skips
          else (case h of
                  None \<Rightarrow> Raises
                | Some hv \<Rightarrow>
                    if \<not> truthy hv then Skips
                    else (case d of
                            None \<Rightarrow> Raises
                          | Some dv \<Rightarrow>
                              Holds \<lparr>date = dv, temperature = tv, humidity = hv\<rparr>)))"

text \<open>
  Line 158: the minutes left of the override, from the time stamp of the report and the
  time of the last forced change, in double arithmetic.
\<close>

definition time_left :: "rat \<Rightarrow> rat \<Rightarrow> int" where
  "time_left ts forced = py_round (fl (fl (3600 - fl (ts - forced)) / 60))"

text \<open>
  Lines 135 to 159, the decision. The result is the new state, the effects and whether
  an exception left the block: \<^verbatim>\<open>dt.timestamp(date)\<close> at line 135, before anything is
  logged, or a comparison of a temperature that is not a number.
\<close>

definition control ::
  "env \<Rightarrow> mqtt_client \<Rightarrow> reading \<Rightarrow> mqtt_client \<times> effect list \<times> bool" where
  "control e self r =
     (case timestamp e (date r) of
        None \<Rightarrow> (self, [], True)
      | Some ts \<Rightarrow>
          if forced_ts self < fl (of_int ts - 3600) then
            (if is_confort (date r) then
               (if status self = PStr ''ON'' then
                  (case py_gt (temperature r) (consigne + hyst) of
                     None \<Rightarrow> (self, [Log Not_forced, Log Confort_period], True)
                   | Some True \<Rightarrow>
                       (let (self', out) = poweroff self
                        in (self',
                            [Log Not_forced, Log Confort_period, Log Hot_enough] @ out,
                            False))
                   | Some False \<Rightarrow> (self, [Log Not_forced, Log Confort_period], False))
                else
                  (case py_lt (temperature r) (consigne - hyst) of
                     None \<Rightarrow> (self, [Log Not_forced, Log Confort_period], True)
                   | Some True \<Rightarrow>
                       (let (self', out) = poweron self
                        in (self',
                            [Log Not_forced, Log Confort_period, Log Not_hot_enough] @ out,
                            False))
                   | Some False \<Rightarrow> (self, [Log Not_forced, Log Confort_period], False)))
             else
               (let (self', out) = poweroff self
                in (self', Log Not_forced # out, False)))
          else
            (self,
             [Log (Manually_forced (status self) (time_left (of_int ts) (forced_ts self)))],
             False))"

definition on_sensor ::
  "env \<Rightarrow> mqtt_client \<Rightarrow> pyval \<Rightarrow> mqtt_client \<times> effect list \<times> bool" where
  "on_sensor e self message =
     (case state_guard (sensor_temperature message) (sensor_humidity message)
             (sensor_date e message) of
        Raises \<Rightarrow> (self, parse_errors e message, True)
      | Skips \<Rightarrow> (self, parse_errors e message, False)
      | Holds r \<Rightarrow>
          (let self1 = self\<lparr>queue := deque_append (queue self) r\<rparr>
           in if \<not> save_ok e then
                (self1, parse_errors e message @ [Log (Info_reading r)], True)
              else
                (let (self2, out, raised) = control e self1 r
                 in (self2,
                     parse_errors e message @
                       [Log (Info_reading r), Save_states (queue self1)] @ out,
                     raised))))"

subsection \<open>Power results: lines 162 to 175\<close>

text \<open>
  In the branch of line 167 the flag is cleared before \<^verbatim>\<open>message['POWER']\<close> is read,
  so the flag stays cleared when that read raises; in the other branch the read comes
  first and nothing is assigned when it raises.
\<close>

definition on_result ::
  "env \<Rightarrow> mqtt_client \<Rightarrow> pyval \<Rightarrow> mqtt_client \<times> effect list \<times> bool" where
  "on_result e self message =
     (case py_in ''POWER'' message of
        None \<Rightarrow> (self, [], True)
      | Some False \<Rightarrow> (self, [], False)
      | Some True \<Rightarrow>
          (if command_sent self then
             (case subscript message ''POWER'' of
                None \<Rightarrow> (self\<lparr>command_sent := False\<rparr>, [], True)
              | Some s \<Rightarrow>
                  (self\<lparr>command_sent := False, status := s\<rparr>, [Log (Heater_is s)], False))
           else
             (case subscript message ''POWER'' of
                None \<Rightarrow> (self, [], True)
              | Some s \<Rightarrow>
                  (self\<lparr>status := s, forced_ts := time_time e\<rparr>,
                   [Log (Heater_is_forced s)], False))))"

subsection \<open>The callback\<close>

definition on_message :: "env \<Rightarrow> mqtt_client \<Rightarrow> msg \<Rightarrow> mqtt_client \<times> effect list" where
  "on_message e self m =
     (case json_loads e (payload m) of
        None \<Rightarrow> (self, [Log Error_occured])
      | Some message \<Rightarrow>
          (let (self1, out1, raised1) =
                 (if topic m = ''tele/tasmota_9DA6D1/SENSOR'' then on_sensor e self message
                  else (self, [], False))
           in if raised1 then
                (self1, Log (Debug_message (topic m) message) # out1 @ [Log Error_occured])
              else
                (let (self2, out2, raised2) =
                       (if topic m = ''stat/tasmota_9DA6D1/RESULT''
                        then on_result e self1 message
                        else (self1, [], False))
                 in (self2,
                     Log (Debug_message (topic m) message) # out1 @ out2 @
                       (if raised2 then [Log Error_occured] else [])))))"

text \<open>A run of the client: the callback on each message in turn, each in its environment.\<close>

fun run :: "mqtt_client \<Rightarrow> (env \<times> msg) list \<Rightarrow> mqtt_client" where
  "run self [] = self"
| "run self ((e, m) # ms) = run (fst (on_message e self m)) ms"

subsection \<open>What a list of effects holds\<close>

text \<open>The payloads published on the command topic, and the queues written to the file.\<close>

fun commands :: "effect list \<Rightarrow> string list" where
  "commands [] = []"
| "commands (Publish t p # out) =
     (if t = ''cmnd/tasmota_9DA6D1/POWER'' then p # commands out else commands out)"
| "commands (_ # out) = commands out"

fun saved :: "effect list \<Rightarrow> reading list list" where
  "saved [] = []"
| "saved (Save_states q # out) = q # saved out"
| "saved (_ # out) = saved out"

subsection \<open>Concrete hosts and messages\<close>

text \<open>
  The examples below run the callback on a host whose time zone is UTC, whose
  \<^verbatim>\<open>json.loads\<close> and \<^verbatim>\<open>strptime\<close> are given by finite tables, and whose file system
  accepts the write. For the dates of its table \<^verbatim>\<open>datetime.timestamp\<close> is the count of
  seconds since 1970 in the Gregorian calendar; the table holds dates of the year 2024
  only, and the host is not asked for others. \<open>telemetry\<close> is the shape of the sensor
  report, \<open>result\<close> that of a power result.
\<close>

definition days_from_civil :: "int \<Rightarrow> int \<Rightarrow> int \<Rightarrow> int" where
  "days_from_civil y m d =
     (let y' = (if m \<le> 2 then y - 1 else y);
          era = y' div 400;
          yoe = y' - era * 400;
          doy = (153 * (if 2 < m then m - 3 else m + 9) + 2) div 5 + d - 1;
          doe = yoe * 365 + yoe div 4 - yoe div 100 + doy
      in era * 146097 + doe - 719468)"

definition utc_timestamp :: "datetime \<Rightarrow> int" where
  "utc_timestamp d =
     ((days_from_civil (int (year d)) (int (month d)) (int (day d)) * 24
        + int (hour d)) * 60 + int (minute d)) * 60 + int (second d)"

definition host :: "(string \<times> pyval) list \<Rightarrow> (string \<times> datetime) list \<Rightarrow> rat \<Rightarrow> env" where
  "host payloads dates now =
     \<lparr>json_loads = map_of payloads,
      strptime = (\<lambda>s fmt. map_of dates s),
      timestamp =
        (\<lambda>d. if d \<in> set (map snd dates) then Some (utc_timestamp d) else None),
      time_time = now,
      save_ok = True\<rparr>"

definition telemetry :: "string \<Rightarrow> pyval \<Rightarrow> pyval \<Rightarrow> pyval" where
  "telemetry t temp hum =
     PDict [(''Time'', PStr t),
            (''SI7021'', PDict [(''Temperature'', temp), (''Humidity'', hum)]),
            (''TempUnit'', PStr ''C'')]"

definition result :: "string \<Rightarrow> pyval" where
  "result s = PDict [(''POWER'', PStr s)]"

definition at_hour :: "nat \<Rightarrow> datetime" where
  "at_hour h = \<lparr>year = 2024, month = 1, day = 15, hour = h, minute = 30, second = 0\<rparr>"

definition sensor_msg :: "string \<Rightarrow> msg" where
  "sensor_msg p = \<lparr>topic = ''tele/tasmota_9DA6D1/SENSOR'', payload = p\<rparr>"

definition result_msg :: "string \<Rightarrow> msg" where
  "result_msg p = \<lparr>topic = ''stat/tasmota_9DA6D1/RESULT'', payload = p\<rparr>"

text \<open>
  The payloads of the examples are named by a word each; the table gives what
  \<^verbatim>\<open>json.loads\<close> returns for them. The argument is the clock of the host.
\<close>

definition home :: "rat \<Rightarrow> env" where
  "home now =
     host
       [(''cold'', telemetry ''2024-01-15T06:30:00'' (PFloat 21) (PFloat 50)),
        (''warm'', telemetry ''2024-01-15T06:30:00'' (PFloat 23) (PFloat 50)),
        (''mild'', telemetry ''2024-01-15T06:30:00'' (PFloat (218 / 10)) (PFloat 50)),
        (''noon'', telemetry ''2024-01-15T12:30:00'' (PFloat 21) (PFloat 50)),
        (''zero'', telemetry ''2024-01-15T06:30:00'' (PFloat 0) (PFloat 50)),
        (''text'', telemetry ''2024-01-15T12:30:00'' (PStr ''hot'') (PFloat 50)),
        (''undated'',
           PDict [(''SI7021'', PDict [(''Temperature'', PFloat 21), (''Humidity'', PFloat 50)])]),
        (''on'', result ''ON''),
        (''off'', result ''OFF''),
        (''frost'', telemetry ''2024-01-15T12:30:00'' (PFloat 0) (PFloat 50))]
       [(''2024-01-15T06:30:00'', at_hour 6),
        (''2024-01-15T12:30:00'', at_hour 12)]
       now"

text \<open>The \<open>n\<close>-th of a series of readings, and the client in a given state.\<close>

definition sample :: "nat \<Rightarrow> reading" where
  "sample n = \<lparr>date = at_hour 6, temperature = PInt (int n + 1), humidity = PInt 50\<rparr>"

definition client :: "pyval \<Rightarrow> bool \<Rightarrow> rat \<Rightarrow> mqtt_client" where
  "client s c f = \<lparr>queue = [], status = s, command_sent = c, forced_ts = f\<rparr>"

text \<open>The \<open>n\<close>-th of a series of reports, on a host that decodes it to the \<open>n\<close>-th reading.\<close>

definition report :: "nat \<Rightarrow> env \<times> msg" where
  "report n =
     (host [(''report'', telemetry ''2024-01-15T06:30:00'' (PInt (int n + 1)) (PInt 50))]
        [(''2024-01-15T06:30:00'', at_hour 6)] 0,
      sensor_msg ''report'')"

subsection \<open>Notions the properties are stated with\<close>

text \<open>
  A message that enters the block of line 164: it is on the result topic, it decodes,
  and \<^verbatim>\<open>'POWER' in message\<close> is true.
\<close>

definition power_result :: "env \<Rightarrow> msg \<Rightarrow> bool" where
  "power_result e m =
     (topic m = ''stat/tasmota_9DA6D1/RESULT'' \<and>
      (case json_loads e (payload m) of
         None \<Rightarrow> False
       | Some message \<Rightarrow> py_in ''POWER'' message = Some True))"

text \<open>
  The reading that line 131 appends for a message, if any: the message is on the sensor
  topic, it decodes, and the test of line 129 holds. \<open>readings\<close> collects them over a
  series of messages.
\<close>

definition stored :: "env \<Rightarrow> msg \<Rightarrow> reading option" where
  "stored e m =
     (if topic m = ''tele/tasmota_9DA6D1/SENSOR'' then
        (case json_loads e (payload m) of
           None \<Rightarrow> None
         | Some message \<Rightarrow>
             (case state_guard (sensor_temperature message) (sensor_humidity message)
                     (sensor_date e message) of
                Holds r \<Rightarrow> Some r
              | _ \<Rightarrow> None))
      else None)"

fun readings :: "(env \<times> msg) list \<Rightarrow> reading list" where
  "readings [] = []"
| "readings ((e, m) # ms) =
     (case stored e m of Some r \<Rightarrow> r # readings ms | None \<Rightarrow> readings ms)"

text \<open>
  The override test as the specification words it, to be compared with the test of
  line 135: the time of the last forced change is \<open>None\<close> when there was none, and
  the controller is overridden when less than one hour has passed since.
\<close>

definition is_overridden_spec :: "rat option \<Rightarrow> rat \<Rightarrow> bool" where
  "is_overridden_spec last_forced_at now =
     (case last_forced_at of None \<Rightarrow> False | Some f \<Rightarrow> now - f < 3600)"

text \<open>
  A telemetry report as the specification words a malformed one: the time stamp, the
  temperature or the humidity is missing or is not of its type. To be compared with
  what the three \<^verbatim>\<open>try\<close> blocks detect.
\<close>

definition malformed_spec :: "env \<Rightarrow> pyval \<Rightarrow> bool" where
  "malformed_spec e message =
     (sensor_date e message = None \<or>
      (case sensor_temperature message of None \<Rightarrow> True | Some tv \<Rightarrow> num_of tv = None) \<or>
      (case sensor_humidity message of None \<Rightarrow> True | Some hv \<Rightarrow> num_of hv = None))"

section \<open>Properties\<close>

subsection \<open>The comfort period\<close>

text \<open>
  C8. \<open>is_confort\<close> reads the hour only and holds exactly for the hours 6, 7, 19 and 20:
  it holds at 6, 7, 19 and 20 and fails at 8, 21 and 0, whatever the other fields are.
\<close>

theorem is_confort_hours:
  "is_confort d = (hour d \<in> {6, 7, 19, 20})
   \<and> is_confort (d\<lparr>hour := 6\<rparr>) \<and> is_confort (d\<lparr>hour := 7\<rparr>)
   \<and> is_confort (d\<lparr>hour := 19\<rparr>) \<and> is_confort (d\<lparr>hour := 20\<rparr>)
   \<and> \<not> is_confort (d\<lparr>hour := 8\<rparr>) \<and> \<not> is_confort (d\<lparr>hour := 21\<rparr>)
   \<and> \<not> is_confort (d\<lparr>hour := 0\<rparr>)"
proof -
  have "is_confort d = (hour d \<in> {6, 7, 19, 20})"
    unfolding is_confort_def by auto
  then show ?thesis
    by (simp add: is_confort_def)
qed

subsection \<open>Rounding\<close>

text \<open>
  \<open>py_round\<close> is a nearest integer and leaves an integer as it is; a whole number below
  \<open>2 ^ 53\<close> in absolute value is a double, so \<open>fl\<close> leaves it as it is. The last lemma
  is a case where the rounding of line 158 shows: the exact quotient is just above
  65238510.5, the double quotient is 65238510.5, and the tie goes to the even integer.
\<close>

lemma py_round_nearest: "\<bar>of_int (py_round x) - x\<bar> \<le> 1 / 2"
proof -
  have "of_int \<lfloor>x\<rfloor> \<le> x" "x < of_int \<lfloor>x\<rfloor> + 1" by linarith+
  then show ?thesis
    by (auto simp: py_round_def Let_def)
qed

lemma py_round_of_int: "py_round (of_int n) = n"
  by (simp add: py_round_def)

lemma fl_of_int:
  assumes "\<bar>n\<bar> < 2 ^ 53"
  shows "fl (of_int n) = of_int n"
proof (cases "n = 0")
  case True
  then show ?thesis by (simp add: fl_def)
next
  case False
  then have pos: "0 < \<bar>n\<bar>" by simp
  define e where "e = bitlen \<bar>n\<bar> - 1"
  have "bitlen \<bar>n\<bar> \<le> 53"
    using assms by (simp add: bitlen_le_iff_power)
  moreover have "1 \<le> bitlen \<bar>n\<bar>"
    using pos by (simp add: bitlen_alt_def)
  ultimately have e: "0 \<le> e" "e \<le> 52" by (simp_all add: e_def)
  from pos have "1 \<le> \<bar>n\<bar>" by linarith
  then have "(1::rat) \<le> of_int \<bar>n\<bar>" by (simp only: of_int_1_le_iff)
  then have one: "(1::rat) \<le> \<bar>of_int n\<bar>" by simp
  have b: "binexp (of_int n) = e"
    using one by (simp add: binexp_def e_def Let_def flip: of_int_abs)
  define k where "k = nat (52 - e)"
  have u: "power_int (2::rat) (max e (- 1022) - 52) = 1 / 2 ^ k"
  proof -
    have "max e (- 1022) - 52 = - int k" using e by (simp add: k_def)
    then show ?thesis by (simp add: power_int_minus_divide)
  qed
  have "fl (of_int n) = of_int (py_round (rat_of_int n * 2 ^ k)) * (1 / 2 ^ k)"
    using False by (simp add: fl_def b u Let_def)
  also have "rat_of_int n * 2 ^ k = of_int (n * 2 ^ k)"
    by simp
  also have "py_round (of_int (n * 2 ^ k)) = n * 2 ^ k"
    by (rule py_round_of_int)
  also have "of_int (n * 2 ^ k) * (1 / 2 ^ k) = (of_int n :: rat)"
    by simp
  finally show ?thesis .
qed

lemma fl_sub_3600:
  assumes "\<bar>ts\<bar> < 2 ^ 52"
  shows "fl (of_int ts - 3600) = of_int ts - 3600"
proof -
  from assms have "\<bar>ts - 3600\<bar> < 2 ^ 53" by simp
  from fl_of_int [OF this] show ?thesis by simp
qed

text \<open>
  The thresholds of lines 143 and 150 in doubles: the sum is 22, the difference is the
  double next above 21.6, and the double before it is below 21.6. So a double is above
  the one exactly when it is above 22, and below the other exactly when it is below 21.6.
\<close>

lemma thresholds_in_doubles:
  "fl (fl (218 / 10) + fl (2 / 10)) = 22"
  "consigne + hyst = 22"
  "fl (fl (218 / 10) - fl (2 / 10)) = 3039929748475085 / 140737488355328"
  "consigne - hyst < 3039929748475085 / 140737488355328"
  "3039929748475085 / 140737488355328 - 1 / 2 ^ 48 < consigne - hyst"
  by code_simp+

lemma time_left_examples:
  "time_left 1705300200 1705299600 = 50"
  "time_left 1705321800 1705318200 = 0"
  "time_left (- 2152307030) (7390363648000001 / 4194304) = 65238510"
  "py_round ((3600 - (- 2152307030 - 7390363648000001 / 4194304)) / 60) = 65238511"
  by code_simp+

subsection \<open>The structure of the callback\<close>

text \<open>
  A report that passes the test of line 129 and is written to the file reaches the
  decision of lines 135 to 159; the callback is then the decision, after the three
  effects of lines 104, 130 and 132. When the test raises or fails, the callback leaves
  the state as it is and only logs: the message, the errors of the three \<^verbatim>\<open>try\<close>
  blocks and, when the test raised, the error of the outer handler.
\<close>

lemma commands_append: "commands (xs @ ys) = commands xs @ commands ys"
  by (induction xs rule: commands.induct) auto

lemma saved_append: "saved (xs @ ys) = saved xs @ saved ys"
  by (induction xs rule: saved.induct) auto

lemma on_message_sensor:
  assumes "topic m = ''tele/tasmota_9DA6D1/SENSOR''"
      and "json_loads e (payload m) = Some message"
  shows "on_message e self m =
           (case on_sensor e self message of
              (self1, out1, raised1) \<Rightarrow>
                (self1, Log (Debug_message (topic m) message) # out1 @
                          (if raised1 then [Log Error_occured] else [])))"
  using assms by (simp add: on_message_def split: prod.splits)

lemma on_sensor_reading:
  assumes "sensor_date e message = Some d"
      and "sensor_temperature message = Some tv"
      and "sensor_humidity message = Some hv"
      and "truthy tv" "truthy hv" "save_ok e"
  shows "on_sensor e self message =
           (case control e (self\<lparr>queue := deque_append (queue self)
                                   \<lparr>date = d, temperature = tv, humidity = hv\<rparr>\<rparr>)
                   \<lparr>date = d, temperature = tv, humidity = hv\<rparr> of
              (self2, out, raised) \<Rightarrow>
                (self2,
                 [Log (Info_reading \<lparr>date = d, temperature = tv, humidity = hv\<rparr>),
                  Save_states (deque_append (queue self)
                                 \<lparr>date = d, temperature = tv, humidity = hv\<rparr>)] @ out,
                 raised))"
  using assms
  by (simp add: on_sensor_def state_guard_def parse_errors_def Let_def split: prod.splits)

lemma on_message_reading:
  assumes "topic m = ''tele/tasmota_9DA6D1/SENSOR''"
      and "json_loads e (payload m) = Some message"
      and "sensor_date e message = Some d"
      and "sensor_temperature message = Some tv"
      and "sensor_humidity message = Some hv"
      and "truthy tv" "truthy hv" "save_ok e"
  shows "on_message e self m =
           (case control e (self\<lparr>queue := deque_append (queue self)
                                   \<lparr>date = d, temperature = tv, humidity = hv\<rparr>\<rparr>)
                   \<lparr>date = d, temperature = tv, humidity = hv\<rparr> of
              (self2, out, raised) \<Rightarrow>
                (self2,
                 [Log (Debug_message (topic m) message),
                  Log (Info_reading \<lparr>date = d, temperature = tv, humidity = hv\<rparr>),
                  Save_states (deque_append (queue self)
                                 \<lparr>date = d, temperature = tv, humidity = hv\<rparr>)] @ out @
                 (if raised then [Log Error_occured] else [])))"
  unfolding on_message_sensor [OF assms(1,2)] on_sensor_reading [OF assms(3-8)]
  by (simp split: prod.splits)

lemma on_message_dropped:
  assumes "topic m = ''tele/tasmota_9DA6D1/SENSOR''"
      and "json_loads e (payload m) = Some message"
      and "state_guard (sensor_temperature message) (sensor_humidity message)
             (sensor_date e message) = g"
      and "g = Raises \<or> g = Skips"
  shows "on_message e self m =
           (self, Log (Debug_message (topic m) message) # parse_errors e message @
                    (if g = Raises then [Log Error_occured] else []))"
  unfolding on_message_sensor [OF assms(1,2)]
  using assms(3,4) by (auto simp: on_sensor_def)

lemma state_guard_unbound:
  assumes "d = None \<or> t = None \<or> h = None"
  shows "state_guard t h d = Raises \<or> state_guard t h d = Skips"
  using assms by (auto simp: state_guard_def split: option.splits)

lemma state_guard_zero:
  assumes "t = Some (PInt 0) \<or> t = Some (PFloat 0) \<or> h = Some (PInt 0) \<or> h = Some (PFloat 0)"
  shows "state_guard t h d = Raises \<or> state_guard t h d = Skips"
  using assms by (auto simp: state_guard_def split: option.splits)

lemma state_guard_zero_bound:
  assumes "t = Some (PInt 0) \<or> t = Some (PFloat 0) \<or> h = Some (PInt 0) \<or> h = Some (PFloat 0)"
      and "d \<noteq> None" "t \<noteq> None" "h \<noteq> None"
  shows "state_guard t h d = Skips"
  using assms by (auto simp: state_guard_def split: option.splits)

lemma parse_errors_logs:
  "commands (parse_errors e message) = []"
  "saved (parse_errors e message) = []"
  "Log Not_forced \<notin> set (parse_errors e message)"
  "Log (Manually_forced s n) \<notin> set (parse_errors e message)"
  by (simp_all add: parse_errors_def)

lemma parse_errors_unbound:
  assumes "sensor_date e message = None \<or> sensor_temperature message = None
           \<or> sensor_humidity message = None"
  shows "Log Error_timestamp \<in> set (parse_errors e message)
         \<or> Log Error_temperature \<in> set (parse_errors e message)
         \<or> Log Error_humidity \<in> set (parse_errors e message)"
  using assms by (auto simp: parse_errors_def)

text \<open>The decision, branch by branch.\<close>

lemma control_raises:
  assumes "timestamp e (date r) = None"
  shows "control e self r = (self, [], True)"
  using assms by (simp add: control_def)

lemma control_forced:
  assumes "timestamp e (date r) = Some ts"
      and "\<not> forced_ts self < fl (of_int ts - 3600)"
  shows "control e self r =
           (self, [Log (Manually_forced (status self) (time_left (of_int ts) (forced_ts self)))],
            False)"
  using assms by (simp add: control_def)

lemma control_automatic:
  assumes "timestamp e (date r) = Some ts"
      and "forced_ts self < fl (of_int ts - 3600)"
  shows "Log Not_forced \<in> set (fst (snd (control e self r)))"
  using assms
  by (simp add: control_def poweron_def poweroff_def split: option.splits bool.splits)

lemma control_outside:
  assumes "timestamp e (date r) = Some ts"
      and "forced_ts self < fl (of_int ts - 3600)"
      and "\<not> is_confort (date r)"
  shows "control e self r =
           (self\<lparr>command_sent := True\<rparr>,
            [Log Not_forced, Log Asking_power_OFF, Publish ''cmnd/tasmota_9DA6D1/POWER'' ''OFF''],
            False)"
  using assms by (simp add: control_def poweroff_def)

lemma commands_control:
  "commands (fst (snd (control e self r))) =
     (case timestamp e (date r) of
        None \<Rightarrow> []
      | Some ts \<Rightarrow>
          if forced_ts self < fl (of_int ts - 3600) then
            (if is_confort (date r) then
               (if status self = PStr ''ON'' then
                  (if py_gt (temperature r) (consigne + hyst) = Some True then [''OFF''] else [])
                else
                  (if py_lt (temperature r) (consigne - hyst) = Some True then [''ON''] else []))
             else [''OFF''])
          else [])"
  by (simp add: control_def poweron_def poweroff_def split: option.splits bool.splits)

lemma queue_control: "queue (fst (control e self r)) = queue self"
  by (simp add: control_def poweron_def poweroff_def Let_def
           split: option.splits bool.splits)

lemma control_flags:
  "status (fst (control e self r)) = status self
   \<and> forced_ts (fst (control e self r)) = forced_ts self
   \<and> (command_sent self \<longrightarrow> command_sent (fst (control e self r)))"
  by (simp add: control_def poweron_def poweroff_def split: option.splits bool.splits)

text \<open>
  When \<^verbatim>\<open>dt.timestamp\<close> raises, the reading is already appended and saved; the callback
  ends in the outer handler and nothing is decided.
\<close>

lemma on_message_timestamp_raises:
  assumes "topic m = ''tele/tasmota_9DA6D1/SENSOR''"
      and "json_loads e (payload m) = Some message"
      and "sensor_date e message = Some d"
      and "sensor_temperature message = Some tv"
      and "sensor_humidity message = Some hv"
      and "truthy tv" "truthy hv" "save_ok e"
      and "timestamp e d = None"
  shows "on_message e self m =
           (self\<lparr>queue := deque_append (queue self)
                             \<lparr>date = d, temperature = tv, humidity = hv\<rparr>\<rparr>,
            [Log (Debug_message (topic m) message),
             Log (Info_reading \<lparr>date = d, temperature = tv, humidity = hv\<rparr>),
             Save_states (deque_append (queue self)
                            \<lparr>date = d, temperature = tv, humidity = hv\<rparr>),
             Log Error_occured])"
proof -
  have "timestamp e (date \<lparr>date = d, temperature = tv, humidity = hv\<rparr>) = None"
    using assms(9) by simp
  from control_raises [OF this] show ?thesis
    unfolding on_message_reading [OF assms(1-8)] by simp
qed

text \<open>The hosts and reports of the examples, evaluated.\<close>

lemma topic_sensor_msg: "topic (sensor_msg p) = ''tele/tasmota_9DA6D1/SENSOR''"
  by (simp add: sensor_msg_def)

lemma home_payloads:
  "json_loads (home now) (payload (sensor_msg ''cold''))
     = Some (telemetry ''2024-01-15T06:30:00'' (PFloat 21) (PFloat 50))"
  "json_loads (home now) (payload (sensor_msg ''warm''))
     = Some (telemetry ''2024-01-15T06:30:00'' (PFloat 23) (PFloat 50))"
  "json_loads (home now) (payload (sensor_msg ''mild''))
     = Some (telemetry ''2024-01-15T06:30:00'' (PFloat (218 / 10)) (PFloat 50))"
  "json_loads (home now) (payload (sensor_msg ''noon''))
     = Some (telemetry ''2024-01-15T12:30:00'' (PFloat 21) (PFloat 50))"
  "json_loads (home now) (payload (sensor_msg ''zero''))
     = Some (telemetry ''2024-01-15T06:30:00'' (PFloat 0) (PFloat 50))"
  "json_loads (home now) (payload (sensor_msg ''text''))
     = Some (telemetry ''2024-01-15T12:30:00'' (PStr ''hot'') (PFloat 50))"
  "json_loads (home now) (payload (sensor_msg ''frost''))
     = Some (telemetry ''2024-01-15T12:30:00'' (PFloat 0) (PFloat 50))"
  by (simp_all add: home_def host_def sensor_msg_def)

lemma home_dates:
  "sensor_date (home now) (telemetry ''2024-01-15T06:30:00'' tv hv) = Some (at_hour 6)"
  "sensor_date (home now) (telemetry ''2024-01-15T12:30:00'' tv hv) = Some (at_hour 12)"
  by (simp_all add: sensor_date_def telemetry_def home_def host_def)

lemma telemetry_fields:
  "sensor_temperature (telemetry ts tv hv) = Some tv"
  "sensor_humidity (telemetry ts tv hv) = Some hv"
  by (simp_all add: sensor_temperature_def sensor_humidity_def telemetry_def)

lemma home_timestamps:
  "timestamp (home now) (at_hour 6) = Some 1705300200"
  "timestamp (home now) (at_hour 12) = Some 1705321800"
  by (simp_all add: home_def host_def utc_timestamp_def at_hour_def days_from_civil_def)

lemma home_fl:
  "fl 1705296600 = 1705296600"
  "fl 1705318200 = 1705318200"
  using fl_of_int [of 1705296600] fl_of_int [of 1705318200] by simp_all

lemma home_save_ok: "save_ok (home now)"
  by (simp add: home_def host_def)

lemma confort_at_hour: "is_confort (at_hour 6)" "\<not> is_confort (at_hour 12)"
  by (simp_all add: is_confort_def at_hour_def)

lemma home_undated:
  "json_loads (home now) (payload (sensor_msg ''undated''))
     = Some (PDict [(''SI7021'',
                     PDict [(''Temperature'', PFloat 21), (''Humidity'', PFloat 50)])])"
  "json_loads (home now) (payload (sensor_msg ''garbage'')) = None"
  "sensor_date (home now)
     (PDict [(''SI7021'', PDict [(''Temperature'', PFloat 21), (''Humidity'', PFloat 50)])])
     = None"
  by (simp_all add: home_def host_def sensor_msg_def sensor_date_def)

subsection \<open>The bounded history\<close>

lemma deque_append_drop:
  "length q \<le> maxlen \<Longrightarrow> deque_append q x = drop (length (q @ [x]) - maxlen) (q @ [x])"
proof (cases "length q = maxlen")
  case True
  then obtain a q' where q: "q = a # q'" by (cases q) (auto simp: maxlen_def)
  with True show ?thesis by (simp add: deque_append_def Let_def)
next
  case False
  assume "length q \<le> maxlen"
  with False show ?thesis by (simp add: deque_append_def Let_def)
qed

lemma length_deque_append: "length q \<le> maxlen \<Longrightarrow> length (deque_append q x) \<le> maxlen"
  by (auto simp: deque_append_def Let_def maxlen_def)

lemma foldl_deque_append:
  "length q \<le> maxlen \<Longrightarrow>
   foldl deque_append q rs = drop (length (q @ rs) - maxlen) (q @ rs)"
proof (induction rs arbitrary: q)
  case Nil
  then show ?case by simp
next
  case (Cons r rs)
  define k where "k = length (q @ [r]) - maxlen"
  define qr where "qr = q @ [r]"
  have k: "k \<le> length qr" by (simp add: k_def qr_def)
  have step: "deque_append q r = drop k qr"
    unfolding k_def qr_def using Cons.prems by (rule deque_append_drop)
  have len: "length (deque_append q r) \<le> maxlen"
    using Cons.prems by (rule length_deque_append)
  have app: "drop k qr @ rs = drop k (qr @ rs)"
    using k by simp
  have arith: "length (drop k (qr @ rs)) - maxlen + k = length (qr @ rs) - maxlen"
    using Cons.prems by (auto simp: k_def qr_def)
  have "foldl deque_append q (r # rs) = foldl deque_append (deque_append q r) rs"
    by simp
  also have "\<dots> = drop (length (deque_append q r @ rs) - maxlen) (deque_append q r @ rs)"
    using len by (rule Cons.IH)
  also have "\<dots> = drop (length (drop k (qr @ rs)) - maxlen) (drop k (qr @ rs))"
    by (simp only: step app)
  also have "\<dots> = drop (length (qr @ rs) - maxlen) (qr @ rs)"
    by (simp only: drop_drop arith)
  also have "qr @ rs = q @ r # rs"
    by (simp add: qr_def)
  finally show ?case .
qed

text \<open>
  Line 131 is the only place where the queue changes: the callback appends the reading
  of its message, when there is one, and leaves the queue alone otherwise, whatever
  happens after line 131.
\<close>

lemma queue_on_sensor:
  "queue (fst (on_sensor e self message)) =
     (case state_guard (sensor_temperature message) (sensor_humidity message)
             (sensor_date e message) of
        Holds r \<Rightarrow> deque_append (queue self) r
      | _ \<Rightarrow> queue self)"
proof (cases "state_guard (sensor_temperature message) (sensor_humidity message)
                (sensor_date e message)")
  case (Holds r)
  then show ?thesis
    using queue_control [of e "self\<lparr>queue := deque_append (queue self) r\<rparr>" r]
    by (auto simp: on_sensor_def Let_def split: prod.splits)
qed (simp_all add: on_sensor_def)

lemma queue_on_result: "queue (fst (on_result e self message)) = queue self"
  by (simp add: on_result_def split: option.splits bool.splits)

lemma queue_on_message:
  "queue (fst (on_message e self m)) =
     (case stored e m of Some r \<Rightarrow> deque_append (queue self) r | None \<Rightarrow> queue self)"
proof (cases "json_loads e (payload m)")
  case None
  then show ?thesis by (simp add: on_message_def stored_def)
next
  case (Some message)
  show ?thesis
  proof (cases "topic m = ''tele/tasmota_9DA6D1/SENSOR''")
    case True
    then have "fst (on_message e self m) = fst (on_sensor e self message)"
      using Some by (simp add: on_message_def split: prod.splits)
    then show ?thesis
      using queue_on_sensor [of e self message] True Some
      by (simp add: stored_def split: guard.splits)
  next
    case False
    then have "queue (fst (on_message e self m)) = queue (fst (on_result e self message))
               \<or> fst (on_message e self m) = self"
      using Some by (simp add: on_message_def split: prod.splits)
    then show ?thesis
      using queue_on_result [of e self message] False by (auto simp: stored_def)
  qed
qed

lemma queue_run: "queue (run self ms) = foldl deque_append (queue self) (readings ms)"
proof (induction ms arbitrary: self)
  case Nil
  then show ?case by simp
next
  case (Cons em ms)
  obtain e m where em: "em = (e, m)" by (cases em) auto
  show ?case
    unfolding em using Cons.IH [of "fst (on_message e self m)"] queue_on_message [of e self m]
    by (simp split: option.splits)
qed

lemma stored_report: "stored (fst (report n)) (snd (report n)) = Some (sample n)"
  by (simp add: stored_def report_def host_def sensor_msg_def telemetry_def sample_def
        sensor_temperature_def sensor_humidity_def sensor_date_def state_guard_def)

lemma readings_reports: "readings (map report ns) = map sample ns"
proof (induction ns)
  case Nil
  then show ?case by simp
next
  case (Cons n ns)
  obtain e m where r: "report n = (e, m)" by (cases "report n") auto
  with stored_report [of n] have "stored e m = Some (sample n)" by simp
  with Cons r show ?case by simp
qed

text \<open>
  C6. The callback appends the reading of a report to the history, at the end, and
  drops the oldest entry when the history is full; a message without a reading leaves
  the history as it is. So a history of at most 100 entries never grows beyond 100, and
  after any series of messages it holds the last 100 of its former entries followed by
  the readings of the series, in their order: starting with no file, after 150 readings
  it holds the last 100 of them. The same holds of the appends taken alone.
\<close>

theorem history_bounded_fifo:
  "length (foldl deque_append [] rs) \<le> 100
   \<and> foldl deque_append [] rs = drop (length rs - 100) rs
   \<and> (length rs = 150 \<longrightarrow> foldl deque_append [] rs = drop 50 rs)
   \<and> (length q < 100 \<longrightarrow> deque_append q r = q @ [r])
   \<and> (length q = 100 \<longrightarrow> deque_append q r = tl q @ [r])
   \<and> (length (queue self) \<le> 100 \<longrightarrow> length (queue (fst (on_message e self m))) \<le> 100)
   \<and> (stored e m = Some r \<and> length (queue self) < 100 \<longrightarrow>
        queue (fst (on_message e self m)) = queue self @ [r])
   \<and> (stored e m = Some r \<and> length (queue self) = 100 \<longrightarrow>
        queue (fst (on_message e self m)) = tl (queue self) @ [r])
   \<and> (stored e m = None \<longrightarrow> queue (fst (on_message e self m)) = queue self)
   \<and> (length (queue self) \<le> 100 \<longrightarrow>
        length (queue (run self ms)) \<le> 100
        \<and> queue (run self ms)
            = drop (length (queue self @ readings ms) - 100) (queue self @ readings ms))
   \<and> (length (readings ms) = 150 \<longrightarrow> queue (run (init None) ms) = drop 50 (readings ms))"
proof -
  have fold: "foldl deque_append [] rs = drop (length rs - 100) rs"
    using foldl_deque_append [of "[]" rs] by (simp add: maxlen_def)
  have bound: "length (foldl deque_append [] rs) \<le> 100"
    unfolding fold by simp
  have last: "length rs = 150 \<longrightarrow> foldl deque_append [] rs = drop 50 rs"
    unfolding fold by simp
  have room: "length q < 100 \<longrightarrow> deque_append q r = q @ [r]" for q :: "reading list" and r
    by (simp add: deque_append_def maxlen_def)
  have full: "length q = 100 \<longrightarrow> deque_append q r = tl q @ [r]" for q :: "reading list" and r
    by (cases q) (simp_all add: deque_append_def maxlen_def)
  have inv: "length (queue self) \<le> 100 \<longrightarrow> length (queue (fst (on_message e self m))) \<le> 100"
    using queue_on_message [of e self m] length_deque_append [of "queue self"]
    by (auto simp: maxlen_def split: option.splits)
  have app1: "stored e m = Some r \<and> length (queue self) < 100 \<longrightarrow>
        queue (fst (on_message e self m)) = queue self @ [r]"
    using queue_on_message [of e self m] room [of "queue self" r] by simp
  have app2: "stored e m = Some r \<and> length (queue self) = 100 \<longrightarrow>
        queue (fst (on_message e self m)) = tl (queue self) @ [r]"
    using queue_on_message [of e self m] full [of "queue self" r] by simp
  have keep: "stored e m = None \<longrightarrow> queue (fst (on_message e self m)) = queue self"
    using queue_on_message [of e self m] by simp
  have runs: "length (queue self) \<le> 100 \<longrightarrow>
        length (queue (run self ms)) \<le> 100
        \<and> queue (run self ms)
            = drop (length (queue self @ readings ms) - 100) (queue self @ readings ms)"
  proof
    assume "length (queue self) \<le> 100"
    then have "length (queue self) \<le> maxlen" by (simp add: maxlen_def)
    from foldl_deque_append [OF this, of "readings ms"]
    have eq: "queue (run self ms)
            = drop (length (queue self @ readings ms) - 100) (queue self @ readings ms)"
      by (simp add: queue_run maxlen_def)
    have "length (queue (run self ms)) \<le> 100"
      unfolding eq by simp
    with eq show "length (queue (run self ms)) \<le> 100
        \<and> queue (run self ms)
            = drop (length (queue self @ readings ms) - 100) (queue self @ readings ms)"
      by blast
  qed
  have start: "length (readings ms) = 150 \<longrightarrow> queue (run (init None) ms) = drop 50 (readings ms)"
    using foldl_deque_append [of "[]" "readings ms"]
    by (simp add: queue_run init_def read_states_def maxlen_def)
  from bound fold last room [of q r] full [of q r] inv app1 app2 keep runs start
  show ?thesis by blast
qed

theorem history_bounded_fifo_witness:
  "length (map sample [0..<150]) = 150
   \<and> foldl deque_append [] (map sample [0..<150]) = drop 50 (map sample [0..<150])
   \<and> length [sample 0] < 100
   \<and> deque_append [sample 0] (sample 1) = [sample 0, sample 1]
   \<and> length (map sample [0..<100]) = 100
   \<and> deque_append (map sample [0..<100]) (sample 100) = tl (map sample [0..<100]) @ [sample 100]
   \<and> stored (fst (report 100)) (snd (report 100)) = Some (sample 100)
   \<and> queue (fst (on_message (fst (report 100)) (init (Some (map sample [0..<100])))
                  (snd (report 100))))
       = tl (map sample [0..<100]) @ [sample 100]
   \<and> queue (fst (on_message (fst (report 1)) (init (Some [sample 0])) (snd (report 1))))
       = [sample 0, sample 1]
   \<and> stored (home 0) (result_msg ''off'') = None
   \<and> queue (fst (on_message (home 0) (init (Some [sample 0])) (result_msg ''off'')))
       = [sample 0]
   \<and> length (readings (map report [0..<150])) = 150
   \<and> queue (run (init None) (map report [0..<150])) = drop 50 (map sample [0..<150])
   \<and> queue (run (init (Some (map sample [0..<100]))) (map report [100..<150]))
       = drop 50 (map sample [0..<100] @ map sample [100..<150])"
proof -
  let ?full = "init (Some (map sample [0..<100]))"
  let ?one = "init (Some [sample 0])"
  have l150: "length (map sample [0..<150]) = 150" by simp
  have l1: "length [sample 0] < 100" by simp
  have l100: "length (map sample [0..<100]) = 100" by simp
  have qf: "queue ?full = map sample [0..<100]" by (simp add: init_def read_states_def)
  have qo: "queue ?one = [sample 0]" by (simp add: init_def read_states_def)
  have lf: "length (queue ?full) = 100" "length (queue ?full) \<le> 100" by (simp_all add: qf)
  have lo: "length (queue ?one) < 100" by (simp add: qo)
  have s100: "stored (fst (report 100)) (snd (report 100)) = Some (sample 100)"
    by (rule stored_report)
  have s1: "stored (fst (report 1)) (snd (report 1)) = Some (sample 1)"
    by (rule stored_report)
  have sn: "stored (home 0) (result_msg ''off'') = None"
    by (simp add: stored_def result_msg_def)
  have r150: "readings (map report [0..<150]) = map sample [0..<150]"
    by (rule readings_reports)
  have r50: "readings (map report [100..<150]) = map sample [100..<150]"
    by (rule readings_reports)
  have lr: "length (readings (map report [0..<150])) = 150"
    unfolding r150 by simp
  note a = history_bounded_fifo [where rs = "map sample [0..<150]" and q = "[sample 0]"
      and r = "sample 1" and self = ?one and e = "fst (report 1)" and m = "snd (report 1)"
      and ms = "map report [0..<150]"]
  note b = history_bounded_fifo [where rs = "[]" and q = "map sample [0..<100]"
      and r = "sample 100" and self = ?full and e = "fst (report 100)"
      and m = "snd (report 100)" and ms = "map report [100..<150]"]
  note c = history_bounded_fifo [where rs = "[]" and q = "[]"
      and r = "sample 0" and self = ?one and e = "home 0"
      and m = "result_msg ''off''" and ms = "[]"]
  from a l150 have c1: "foldl deque_append [] (map sample [0..<150]) = drop 50 (map sample [0..<150])"
    by blast
  from a l1 have c2: "deque_append [sample 0] (sample 1) = [sample 0, sample 1]"
    by simp
  from b l100 have c3: "deque_append (map sample [0..<100]) (sample 100)
                        = tl (map sample [0..<100]) @ [sample 100]"
    by blast
  from b s100 lf(1) have "queue (fst (on_message (fst (report 100)) ?full (snd (report 100))))
       = tl (queue ?full) @ [sample 100]"
    by blast
  then have c4: "queue (fst (on_message (fst (report 100)) ?full (snd (report 100))))
       = tl (map sample [0..<100]) @ [sample 100]"
    by (simp only: qf)
  from a s1 lo have "queue (fst (on_message (fst (report 1)) ?one (snd (report 1))))
       = queue ?one @ [sample 1]"
    by blast
  then have c5: "queue (fst (on_message (fst (report 1)) ?one (snd (report 1))))
       = [sample 0, sample 1]"
    by (simp only: qo) simp
  from c sn have "queue (fst (on_message (home 0) ?one (result_msg ''off''))) = queue ?one"
    by blast
  then have c6: "queue (fst (on_message (home 0) ?one (result_msg ''off''))) = [sample 0]"
    by (simp only: qo)
  from a lr have "queue (run (init None) (map report [0..<150]))
                    = drop 50 (readings (map report [0..<150]))"
    by blast
  then have c7: "queue (run (init None) (map report [0..<150])) = drop 50 (map sample [0..<150])"
    by (simp only: r150)
  from b lf(2) have "queue (run ?full (map report [100..<150]))
       = drop (length (queue ?full @ readings (map report [100..<150])) - 100)
           (queue ?full @ readings (map report [100..<150]))"
    by blast
  then have c8: "queue (run ?full (map report [100..<150]))
       = drop 50 (map sample [0..<100] @ map sample [100..<150])"
    by (simp only: qf r50) simp
  from l150 c1 l1 c2 l100 c3 s100 c4 c5 sn c6 lr c7 c8 show ?thesis by blast
qed

subsection \<open>Power results\<close>

text \<open>
  C3. A power result that reports the state \<open>s\<close> (the decoded message is a dictionary
  with the entry \<^verbatim>\<open>POWER\<close>): when a command of the client is awaited, the flag is cleared,
  the status becomes \<open>s\<close> and the time of the last forced change stays; when none is
  awaited, the status becomes \<open>s\<close> and the time of the last forced change becomes the
  current time. Nothing else of the state changes.
\<close>

theorem power_result_attribution:
  assumes "topic m = ''stat/tasmota_9DA6D1/RESULT''"
      and "json_loads e (payload m) = Some (PDict kvs)"
      and "map_of kvs ''POWER'' = Some s"
  shows "(command_sent self \<longrightarrow>
            fst (on_message e self m) = self\<lparr>command_sent := False, status := s\<rparr>)
       \<and> (\<not> command_sent self \<longrightarrow>
            fst (on_message e self m) = self\<lparr>status := s, forced_ts := time_time e\<rparr>)"
proof -
  have "''POWER'' \<in> fst ` set kvs"
    using assms(3) by (metis map_of_eq_None_iff option.distinct(1))
  then have mem: "py_in ''POWER'' (PDict kvs) = Some True" by simp
  have sub: "subscript (PDict kvs) ''POWER'' = Some s" using assms(3) by simp
  show ?thesis
    using assms(1,2) mem sub by (simp add: on_message_def on_result_def)
qed

theorem power_result_attribution_witness:
  "command_sent (client PNone True 0)
   \<and> fst (on_message (home 1705300000) (client PNone True 0) (result_msg ''off''))
       = client (PStr ''OFF'') False 0
   \<and> \<not> command_sent (client (PStr ''OFF'') False 0)
   \<and> fst (on_message (home 1705300000) (client (PStr ''OFF'') False 0) (result_msg ''on''))
       = client (PStr ''ON'') False 1705300000"
proof -
  have t: "topic (result_msg p) = ''stat/tasmota_9DA6D1/RESULT''" for p
    by (simp add: result_msg_def)
  have off: "json_loads (home 1705300000) (payload (result_msg ''off''))
               = Some (PDict [(''POWER'', PStr ''OFF'')])"
    by (simp add: home_def host_def result_msg_def result_def)
  have on: "json_loads (home 1705300000) (payload (result_msg ''on''))
              = Some (PDict [(''POWER'', PStr ''ON'')])"
    by (simp add: home_def host_def result_msg_def result_def)
  have k: "map_of [(''POWER'', PStr v)] ''POWER'' = Some (PStr v)" for v
    by simp
  have c1: "command_sent (client PNone True 0)" by (simp add: client_def)
  have c2: "\<not> command_sent (client (PStr ''OFF'') False 0)" by (simp add: client_def)
  from power_result_attribution [OF t off k, of "client PNone True 0"] c1
  have r1: "fst (on_message (home 1705300000) (client PNone True 0) (result_msg ''off''))
              = client (PStr ''OFF'') False 0"
    by (simp add: client_def)
  from power_result_attribution [OF t on k, of "client (PStr ''OFF'') False 0"] c2
  have r2: "fst (on_message (home 1705300000) (client (PStr ''OFF'') False 0) (result_msg ''on''))
              = client (PStr ''ON'') False 1705300000"
    by (simp add: client_def home_def host_def)
  from c1 r1 c2 r2 show ?thesis by blast
qed

subsection \<open>Telemetry in automatic mode\<close>

text \<open>
  C1, as the code has it. A report reaches the decision when its three fields are
  present, its temperature and humidity are true values (for numbers: not 0), the file
  is written and \<^verbatim>\<open>dt.timestamp\<close> returns; it is handled in automatic mode when the time
  of the last forced change is below the time stamp minus 3600. For such a report in the
  comfort period, with a temperature that is a number \<open>t\<close>: when the status is ON and
  \<open>t\<close> is above 21.8 + 0.2 the command OFF is published; when the status is not ON and
  \<open>t\<close> is below 21.8 - 0.2 the command ON is published; when \<open>t\<close> is within the band,
  bounds included, no command is published, whatever the status.
\<close>

theorem hysteresis_in_comfort_period:
  assumes "topic m = ''tele/tasmota_9DA6D1/SENSOR''"
      and "json_loads e (payload m) = Some message"
      and "sensor_date e message = Some d"
      and "sensor_temperature message = Some tv"
      and "sensor_humidity message = Some hv"
      and "truthy tv" "truthy hv" "save_ok e"
      and "num_of tv = Some t"
      and "timestamp e d = Some ts"
      and "forced_ts self < fl (of_int ts - 3600)"
      and "is_confort d"
  shows "consigne = 218 / 10 \<and> hyst = 2 / 10
       \<and> (status self = PStr ''ON'' \<and> consigne + hyst < t \<longrightarrow>
            commands (snd (on_message e self m)) = [''OFF''])
       \<and> (status self \<noteq> PStr ''ON'' \<and> t < consigne - hyst \<longrightarrow>
            commands (snd (on_message e self m)) = [''ON''])
       \<and> (consigne - hyst \<le> t \<and> t \<le> consigne + hyst \<longrightarrow>
            commands (snd (on_message e self m)) = [])"
proof -
  have off: "commands (snd (on_message e self m)) = [''OFF'']"
    if "status self = PStr ''ON''" "consigne + hyst < t"
    unfolding on_message_reading [OF assms(1-8)]
    using assms(9-12) that by (simp add: control_def poweroff_def py_gt_def)
  have on: "commands (snd (on_message e self m)) = [''ON'']"
    if "status self \<noteq> PStr ''ON''" "t < consigne - hyst"
    unfolding on_message_reading [OF assms(1-8)]
    using assms(9-12) that by (simp add: control_def poweron_def py_lt_def)
  have band: "commands (snd (on_message e self m)) = []"
    if "consigne - hyst \<le> t" "t \<le> consigne + hyst"
    unfolding on_message_reading [OF assms(1-8)]
    using assms(9-12) that by (simp add: control_def py_gt_def py_lt_def)
  from off on band show ?thesis
    by (simp add: consigne_def hyst_def)
qed

theorem hysteresis_in_comfort_period_witness:
  "is_confort (at_hour 6)
   \<and> timestamp (home 0) (at_hour 6) = Some 1705300200
   \<and> forced_ts (client (PStr ''ON'') False 0) < fl (of_int 1705300200 - 3600)
   \<and> commands (snd (on_message (home 0) (client (PStr ''ON'') False 0) (sensor_msg ''warm'')))
       = [''OFF'']
   \<and> commands (snd (on_message (home 0) (client (PStr ''OFF'') False 0) (sensor_msg ''cold'')))
       = [''ON'']
   \<and> commands (snd (on_message (home 0) (client PNone False 0) (sensor_msg ''cold'')))
       = [''ON'']
   \<and> commands (snd (on_message (home 0) (client (PStr ''ON'') False 0) (sensor_msg ''mild'')))
       = []
   \<and> commands (snd (on_message (home 0) (client (PStr ''OFF'') False 0) (sensor_msg ''mild'')))
       = []"
proof -
  have auto: "forced_ts (client s False 0) < fl (of_int 1705300200 - 3600)" for s
    by (simp add: client_def home_fl)
  have t: "truthy (PFloat 21)" "truthy (PFloat 23)" "truthy (PFloat (218 / 10))"
    "truthy (PFloat 50)" by simp_all
  have n: "num_of (PFloat x) = Some x" for x by simp
  note warm = hysteresis_in_comfort_period [OF topic_sensor_msg home_payloads(2) [of 0]
      home_dates(1) telemetry_fields t(2) t(4) home_save_ok n home_timestamps(1)
      auto [of "PStr ''ON''"] confort_at_hour(1)]
  note cold = hysteresis_in_comfort_period [OF topic_sensor_msg home_payloads(1) [of 0]
      home_dates(1) telemetry_fields t(1) t(4) home_save_ok n home_timestamps(1)
      auto [of "PStr ''OFF''"] confort_at_hour(1)]
  note cold' = hysteresis_in_comfort_period [OF topic_sensor_msg home_payloads(1) [of 0]
      home_dates(1) telemetry_fields t(1) t(4) home_save_ok n home_timestamps(1)
      auto [of PNone] confort_at_hour(1)]
  note mild = hysteresis_in_comfort_period [OF topic_sensor_msg home_payloads(3) [of 0]
      home_dates(1) telemetry_fields t(3) t(4) home_save_ok n home_timestamps(1)
      auto [of "PStr ''ON''"] confort_at_hour(1)]
  note mild' = hysteresis_in_comfort_period [OF topic_sensor_msg home_payloads(3) [of 0]
      home_dates(1) telemetry_fields t(3) t(4) home_save_ok n home_timestamps(1)
      auto [of "PStr ''OFF''"] confort_at_hour(1)]
  have c1: "commands (snd (on_message (home 0) (client (PStr ''ON'') False 0)
              (sensor_msg ''warm''))) = [''OFF'']"
    using warm by (simp add: client_def)
  have c2: "commands (snd (on_message (home 0) (client (PStr ''OFF'') False 0)
              (sensor_msg ''cold''))) = [''ON'']"
    using cold by (simp add: client_def)
  have c3: "commands (snd (on_message (home 0) (client PNone False 0)
              (sensor_msg ''cold''))) = [''ON'']"
    using cold' by (simp add: client_def)
  have c4: "commands (snd (on_message (home 0) (client (PStr ''ON'') False 0)
              (sensor_msg ''mild''))) = []"
    using mild by simp
  have c5: "commands (snd (on_message (home 0) (client (PStr ''OFF'') False 0)
              (sensor_msg ''mild''))) = []"
    using mild' by simp
  from confort_at_hour(1) home_timestamps(1) auto c1 c2 c3 c4 c5 show ?thesis by blast
qed

text \<open>
  C1 as stated fails for a reading of 0 degrees: in the comfort period, in automatic
  mode, with the status OFF and a temperature below the band, the report is dropped at
  line 129 and no command is published.
\<close>

theorem zero_in_comfort_counterexample:
  "is_confort (at_hour 6)
   \<and> sensor_date (home 0) (telemetry ''2024-01-15T06:30:00'' (PFloat 0) (PFloat 50))
       = Some (at_hour 6)
   \<and> sensor_temperature (telemetry ''2024-01-15T06:30:00'' (PFloat 0) (PFloat 50))
       = Some (PFloat 0)
   \<and> timestamp (home 0) (at_hour 6) = Some 1705300200
   \<and> forced_ts (client (PStr ''OFF'') False 0) < fl (of_int 1705300200 - 3600)
   \<and> status (client (PStr ''OFF'') False 0) \<noteq> PStr ''ON''
   \<and> (0::rat) < consigne - hyst
   \<and> commands (snd (on_message (home 0) (client (PStr ''OFF'') False 0) (sensor_msg ''zero'')))
       = []"
proof -
  let ?message = "telemetry ''2024-01-15T06:30:00'' (PFloat 0) (PFloat 50)"
  have a: "forced_ts (client (PStr ''OFF'') False 0) < fl (of_int 1705300200 - 3600)"
    by (simp add: client_def home_fl)
  have s: "status (client (PStr ''OFF'') False 0) \<noteq> PStr ''ON''"
    by (simp add: client_def)
  have b: "(0::rat) < consigne - hyst"
    by (simp add: consigne_def hyst_def)
  have g: "state_guard (sensor_temperature ?message) (sensor_humidity ?message)
             (sensor_date (home 0) ?message) = Skips"
    by (simp add: telemetry_fields home_dates state_guard_def)
  have c: "commands (snd (on_message (home 0) (client (PStr ''OFF'') False 0)
             (sensor_msg ''zero''))) = []"
    unfolding on_message_dropped [OF topic_sensor_msg home_payloads(5) g disjI2 [OF refl]]
    by (simp add: commands_append parse_errors_logs)
  from confort_at_hour(1) home_dates(1) telemetry_fields(1) home_timestamps(1) a s b c
  show ?thesis by blast
qed

text \<open>
  C4, as the code has it. Outside the comfort period a report that reaches the decision
  (its three fields are present, its temperature and humidity are true values, so not 0,
  the file is written and \<^verbatim>\<open>dt.timestamp\<close> returns) and is handled in automatic mode
  always asks for OFF: whatever the temperature and whatever the status, the one command
  published is OFF and nothing else is decided.
\<close>

theorem off_outside_comfort_period:
  assumes "topic m = ''tele/tasmota_9DA6D1/SENSOR''"
      and "json_loads e (payload m) = Some message"
      and "sensor_date e message = Some d"
      and "sensor_temperature message = Some tv"
      and "sensor_humidity message = Some hv"
      and "truthy tv" "truthy hv" "save_ok e"
      and "timestamp e d = Some ts"
      and "forced_ts self < fl (of_int ts - 3600)"
      and "\<not> is_confort d"
  shows "on_message e self m =
           (self\<lparr>queue := deque_append (queue self)
                             \<lparr>date = d, temperature = tv, humidity = hv\<rparr>,
                  command_sent := True\<rparr>,
            [Log (Debug_message (topic m) message),
             Log (Info_reading \<lparr>date = d, temperature = tv, humidity = hv\<rparr>),
             Save_states (deque_append (queue self)
                            \<lparr>date = d, temperature = tv, humidity = hv\<rparr>),
             Log Not_forced,
             Log Asking_power_OFF,
             Publish ''cmnd/tasmota_9DA6D1/POWER'' ''OFF''])
         \<and> commands (snd (on_message e self m)) = [''OFF'']"
  unfolding on_message_reading [OF assms(1-8)]
  using assms(9-11) by (simp add: control_def poweroff_def)

theorem off_outside_comfort_period_witness:
  "\<not> is_confort (at_hour 12)
   \<and> timestamp (home 0) (at_hour 12) = Some 1705321800
   \<and> forced_ts (client (PStr ''ON'') False 0) < fl (of_int 1705321800 - 3600)
   \<and> commands (snd (on_message (home 0) (client (PStr ''ON'') False 0) (sensor_msg ''noon'')))
       = [''OFF'']
   \<and> fst (on_message (home 0) (client (PStr ''ON'') False 0) (sensor_msg ''noon''))
       = \<lparr>queue = [\<lparr>date = at_hour 12, temperature = PFloat 21, humidity = PFloat 50\<rparr>],
          status = PStr ''ON'', command_sent = True, forced_ts = 0\<rparr>"
proof -
  have auto: "forced_ts (client (PStr ''ON'') False 0) < fl (of_int 1705321800 - 3600)"
    by (simp add: client_def home_fl)
  have t: "truthy (PFloat 21)" "truthy (PFloat 50)" by simp_all
  note r = off_outside_comfort_period [OF topic_sensor_msg home_payloads(4) home_dates(2)
      telemetry_fields t home_save_ok home_timestamps(2) auto confort_at_hour(2)]
  from r have c: "commands (snd (on_message (home 0) (client (PStr ''ON'') False 0)
                    (sensor_msg ''noon''))) = [''OFF'']"
    by blast
  from r have s: "fst (on_message (home 0) (client (PStr ''ON'') False 0) (sensor_msg ''noon''))
       = \<lparr>queue = [\<lparr>date = at_hour 12, temperature = PFloat 21, humidity = PFloat 50\<rparr>],
          status = PStr ''ON'', command_sent = True, forced_ts = 0\<rparr>"
    by (simp add: client_def deque_append_def maxlen_def)
  from confort_at_hour(2) home_timestamps(2) auto c s show ?thesis by blast
qed

text \<open>
  C4 as stated fails for a reading of 0 degrees: outside the comfort period, in
  automatic mode, with the status ON, the report is dropped at line 129, the state is
  left as it is and no command is published.
\<close>

theorem zero_outside_comfort_counterexample:
  "\<not> is_confort (at_hour 12)
   \<and> sensor_date (home 0) (telemetry ''2024-01-15T12:30:00'' (PFloat 0) (PFloat 50))
       = Some (at_hour 12)
   \<and> sensor_temperature (telemetry ''2024-01-15T12:30:00'' (PFloat 0) (PFloat 50))
       = Some (PFloat 0)
   \<and> timestamp (home 0) (at_hour 12) = Some 1705321800
   \<and> forced_ts (client (PStr ''ON'') False 0) < fl (of_int 1705321800 - 3600)
   \<and> on_message (home 0) (client (PStr ''ON'') False 0) (sensor_msg ''frost'')
       = (client (PStr ''ON'') False 0,
          [Log (Debug_message ''tele/tasmota_9DA6D1/SENSOR''
                  (telemetry ''2024-01-15T12:30:00'' (PFloat 0) (PFloat 50)))])
   \<and> commands (snd (on_message (home 0) (client (PStr ''ON'') False 0) (sensor_msg ''frost'')))
       = []"
proof -
  let ?message = "telemetry ''2024-01-15T12:30:00'' (PFloat 0) (PFloat 50)"
  have a: "forced_ts (client (PStr ''ON'') False 0) < fl (of_int 1705321800 - 3600)"
    by (simp add: client_def home_fl)
  have g: "state_guard (sensor_temperature ?message) (sensor_humidity ?message)
             (sensor_date (home 0) ?message) = Skips"
    by (simp add: telemetry_fields home_dates state_guard_def)
  have r: "on_message (home 0) (client (PStr ''ON'') False 0) (sensor_msg ''frost'')
       = (client (PStr ''ON'') False 0,
          [Log (Debug_message ''tele/tasmota_9DA6D1/SENSOR'' ?message)])"
    unfolding on_message_dropped [OF topic_sensor_msg home_payloads(7) g disjI2 [OF refl]]
    by (simp add: parse_errors_def telemetry_fields home_dates topic_sensor_msg)
  have c: "commands (snd (on_message (home 0) (client (PStr ''ON'') False 0)
             (sensor_msg ''frost''))) = []"
    unfolding r by simp
  from confort_at_hour(2) home_dates(2) telemetry_fields(1) home_timestamps(2) a r c
  show ?thesis by blast
qed

subsection \<open>The override window\<close>

text \<open>
  C2, as the code has it. For a report that reaches the decision (its three fields are
  present, its temperature and humidity are true values, so not 0, the file is written
  and \<^verbatim>\<open>dt.timestamp\<close> returns), with \<open>now\<close> the time stamp of the report, a whole number
  of seconds below \<open>2 ^ 52\<close> as for every date of the calendar, and \<open>forced_ts\<close> the time
  of the last forced change (0 as long as there was none): the report is handled as
  overridden exactly when \<open>now - forced_ts\<close> is at most 3600 seconds, the bound included.
  Then the state changes by the appended reading only, no command is published, and the
  one line logged after the save gives the status and
  \<open>round((3600 - (now - forced_ts)) / 60)\<close> minutes, each operation rounded to a double.
  When more than 3600 seconds have passed (3601 for instance) the report is handled in
  automatic mode.
\<close>

theorem override_window:
  assumes "topic m = ''tele/tasmota_9DA6D1/SENSOR''"
      and "json_loads e (payload m) = Some message"
      and "sensor_date e message = Some d"
      and "sensor_temperature message = Some tv"
      and "sensor_humidity message = Some hv"
      and "truthy tv" "truthy hv" "save_ok e"
      and "timestamp e d = Some ts"
      and "\<bar>ts\<bar> < 2 ^ 52"
  shows "(of_int ts - forced_ts self \<le> 3600 \<longrightarrow>
            on_message e self m =
              (self\<lparr>queue := deque_append (queue self)
                                \<lparr>date = d, temperature = tv, humidity = hv\<rparr>\<rparr>,
               [Log (Debug_message (topic m) message),
                Log (Info_reading \<lparr>date = d, temperature = tv, humidity = hv\<rparr>),
                Save_states (deque_append (queue self)
                               \<lparr>date = d, temperature = tv, humidity = hv\<rparr>),
                Log (Manually_forced (status self)
                       (py_round
                          (fl (fl (3600 - fl (of_int ts - forced_ts self)) / 60))))]))
       \<and> (3600 < of_int ts - forced_ts self \<longrightarrow>
            Log Not_forced \<in> set (snd (on_message e self m)))"
proof -
  let ?r = "\<lparr>date = d, temperature = tv, humidity = hv\<rparr>"
  let ?self1 = "self\<lparr>queue := deque_append (queue self) ?r\<rparr>"
  have ts: "timestamp e (date ?r) = Some ts"
    using assms(9) by simp
  note exact = fl_sub_3600 [OF assms(10)]
  have forced: "on_message e self m =
      (?self1,
       [Log (Debug_message (topic m) message), Log (Info_reading ?r),
        Save_states (deque_append (queue self) ?r),
        Log (Manually_forced (status self)
               (py_round (fl (fl (3600 - fl (of_int ts - forced_ts self)) / 60))))])"
    if "of_int ts - forced_ts self \<le> 3600"
  proof -
    from that have "\<not> forced_ts ?self1 < fl (of_int ts - 3600)"
      unfolding exact by simp
    from control_forced [OF ts this] show ?thesis
      unfolding on_message_reading [OF assms(1-8)] by (simp add: time_left_def)
  qed
  have automatic: "Log Not_forced \<in> set (snd (on_message e self m))"
    if "3600 < of_int ts - forced_ts self"
  proof -
    from that have "forced_ts ?self1 < fl (of_int ts - 3600)"
      unfolding exact by simp
    from control_automatic [OF ts this]
    have mem: "Log Not_forced \<in> set (fst (snd (control e ?self1 ?r)))" .
    obtain self2 out raised where c: "control e ?self1 ?r = (self2, out, raised)"
      by (cases "control e ?self1 ?r") auto
    from mem show ?thesis
      unfolding on_message_reading [OF assms(1-8)] c by simp
  qed
  from forced automatic show ?thesis by blast
qed

theorem override_window_witness:
  "timestamp (home 0) (at_hour 6) = Some 1705300200
   \<and> of_int 1705300200 - forced_ts (client (PStr ''OFF'') False 1705299600) = 600
   \<and> on_message (home 0) (client (PStr ''OFF'') False 1705299600) (sensor_msg ''cold'')
       = (\<lparr>queue = [\<lparr>date = at_hour 6, temperature = PFloat 21, humidity = PFloat 50\<rparr>],
           status = PStr ''OFF'', command_sent = False, forced_ts = 1705299600\<rparr>,
          [Log (Debug_message ''tele/tasmota_9DA6D1/SENSOR''
                  (telemetry ''2024-01-15T06:30:00'' (PFloat 21) (PFloat 50))),
           Log (Info_reading \<lparr>date = at_hour 6, temperature = PFloat 21, humidity = PFloat 50\<rparr>),
           Save_states [\<lparr>date = at_hour 6, temperature = PFloat 21, humidity = PFloat 50\<rparr>],
           Log (Manually_forced (PStr ''OFF'') 50)])
   \<and> of_int 1705300200 - forced_ts (client (PStr ''OFF'') False 1705296599) = 3601
   \<and> Log Not_forced
       \<in> set (snd (on_message (home 0) (client (PStr ''OFF'') False 1705296599)
                     (sensor_msg ''cold'')))"
proof -
  have t: "truthy (PFloat 21)" "truthy (PFloat 50)" by simp_all
  have range: "\<bar>1705300200 :: int\<bar> < 2 ^ 52" by simp
  note w = override_window [OF topic_sensor_msg home_payloads(1) [of 0] home_dates(1)
      telemetry_fields t home_save_ok home_timestamps(1) range]
  have d1: "of_int 1705300200 - forced_ts (client (PStr ''OFF'') False 1705299600) = 600"
    by (simp add: client_def)
  have d2: "of_int 1705300200 - forced_ts (client (PStr ''OFF'') False 1705296599) = 3601"
    by (simp add: client_def)
  have r: "py_round (fl (fl (3600 - fl (1705300200 - 1705299600)) / 60)) = 50"
    using time_left_examples(1) by (simp only: time_left_def)
  have c1: "on_message (home 0) (client (PStr ''OFF'') False 1705299600) (sensor_msg ''cold'')
       = (\<lparr>queue = [\<lparr>date = at_hour 6, temperature = PFloat 21, humidity = PFloat 50\<rparr>],
           status = PStr ''OFF'', command_sent = False, forced_ts = 1705299600\<rparr>,
          [Log (Debug_message ''tele/tasmota_9DA6D1/SENSOR''
                  (telemetry ''2024-01-15T06:30:00'' (PFloat 21) (PFloat 50))),
           Log (Info_reading \<lparr>date = at_hour 6, temperature = PFloat 21, humidity = PFloat 50\<rparr>),
           Save_states [\<lparr>date = at_hour 6, temperature = PFloat 21, humidity = PFloat 50\<rparr>],
           Log (Manually_forced (PStr ''OFF'') 50)])"
  proof -
    from w [of "client (PStr ''OFF'') False 1705299600"] d1
    have "on_message (home 0) (client (PStr ''OFF'') False 1705299600) (sensor_msg ''cold'')
       = ((client (PStr ''OFF'') False 1705299600)
            \<lparr>queue := deque_append (queue (client (PStr ''OFF'') False 1705299600))
               \<lparr>date = at_hour 6, temperature = PFloat 21, humidity = PFloat 50\<rparr>\<rparr>,
          [Log (Debug_message (topic (sensor_msg ''cold''))
                  (telemetry ''2024-01-15T06:30:00'' (PFloat 21) (PFloat 50))),
           Log (Info_reading \<lparr>date = at_hour 6, temperature = PFloat 21, humidity = PFloat 50\<rparr>),
           Save_states (deque_append (queue (client (PStr ''OFF'') False 1705299600))
               \<lparr>date = at_hour 6, temperature = PFloat 21, humidity = PFloat 50\<rparr>),
           Log (Manually_forced (status (client (PStr ''OFF'') False 1705299600))
                  (py_round (fl (fl (3600 - fl (of_int 1705300200
                     - forced_ts (client (PStr ''OFF'') False 1705299600))) / 60))))])"
      by simp
    also have "forced_ts (client (PStr ''OFF'') False 1705299600) = 1705299600"
      by (simp add: client_def)
    also have "py_round (fl (fl (3600 - fl (of_int 1705300200 - 1705299600)) / 60)) = 50"
      using r by simp
    finally show ?thesis
      by (simp add: client_def deque_append_def maxlen_def topic_sensor_msg)
  qed
  have c2: "Log Not_forced
       \<in> set (snd (on_message (home 0) (client (PStr ''OFF'') False 1705296599)
                     (sensor_msg ''cold'')))"
    using w [of "client (PStr ''OFF'') False 1705296599"] d2 by simp
  from home_timestamps(1) d1 c1 d2 c2 show ?thesis by blast
qed

text \<open>
  C2 as stated fails on the bound: exactly 3600 seconds after a forced change the
  specification's test says not overridden, and the callback still logs the override
  (0 minutes left) and decides nothing, although the heater is ON outside the comfort
  period.
\<close>

theorem override_boundary_counterexample:
  "\<not> is_overridden_spec (Some 1705318200) 1705321800
   \<and> timestamp (home 0) (at_hour 12) = Some 1705321800
   \<and> on_message (home 0) (client (PStr ''ON'') False 1705318200) (sensor_msg ''noon'')
       = (\<lparr>queue = [\<lparr>date = at_hour 12, temperature = PFloat 21, humidity = PFloat 50\<rparr>],
           status = PStr ''ON'', command_sent = False, forced_ts = 1705318200\<rparr>,
          [Log (Debug_message ''tele/tasmota_9DA6D1/SENSOR''
                  (telemetry ''2024-01-15T12:30:00'' (PFloat 21) (PFloat 50))),
           Log (Info_reading \<lparr>date = at_hour 12, temperature = PFloat 21, humidity = PFloat 50\<rparr>),
           Save_states [\<lparr>date = at_hour 12, temperature = PFloat 21, humidity = PFloat 50\<rparr>],
           Log (Manually_forced (PStr ''ON'') 0)])"
proof -
  let ?r = "\<lparr>date = at_hour 12, temperature = PFloat 21, humidity = PFloat 50\<rparr>"
  let ?self = "client (PStr ''ON'') False 1705318200"
  have t: "truthy (PFloat 21)" "truthy (PFloat 50)" by simp_all
  have spec: "\<not> is_overridden_spec (Some 1705318200) 1705321800"
    by (simp add: is_overridden_spec_def)
  have ts: "timestamp (home 0) (date ?r) = Some 1705321800"
    by (simp add: home_timestamps)
  have f: "\<not> forced_ts (?self\<lparr>queue := deque_append (queue ?self) ?r\<rparr>)
             < fl (of_int 1705321800 - 3600)"
    by (simp add: client_def home_fl)
  have code: "on_message (home 0) ?self (sensor_msg ''noon'')
       = (\<lparr>queue = [?r], status = PStr ''ON'', command_sent = False, forced_ts = 1705318200\<rparr>,
          [Log (Debug_message ''tele/tasmota_9DA6D1/SENSOR''
                  (telemetry ''2024-01-15T12:30:00'' (PFloat 21) (PFloat 50))),
           Log (Info_reading ?r), Save_states [?r], Log (Manually_forced (PStr ''ON'') 0)])"
    unfolding on_message_reading [OF topic_sensor_msg home_payloads(4) home_dates(2)
      telemetry_fields t home_save_ok] control_forced [OF ts f]
    by (simp add: client_def deque_append_def maxlen_def topic_sensor_msg time_left_examples)
  from spec home_timestamps(2) code show ?thesis by blast
qed

subsection \<open>Which commands are published\<close>

text \<open>
  The commands of one callback are those of the decision of lines 135 to 159, when the
  report reaches it, and none otherwise.
\<close>

lemma commands_on_sensor:
  "commands (fst (snd (on_sensor e self message))) = []
   \<or> (\<exists>r. sensor_date e message = Some (date r)
          \<and> commands (fst (snd (on_sensor e self message)))
              = commands (fst (snd (control e (self\<lparr>queue := deque_append (queue self) r\<rparr>) r))))"
proof (cases "state_guard (sensor_temperature message) (sensor_humidity message)
                (sensor_date e message)")
  case Raises
  then show ?thesis by (simp add: on_sensor_def parse_errors_def)
next
  case Skips
  then show ?thesis by (simp add: on_sensor_def parse_errors_def)
next
  case (Holds r)
  then have d: "sensor_date e message = Some (date r)"
    by (auto simp: state_guard_def split: option.splits if_splits)
  obtain self2 out raised
    where c: "control e (self\<lparr>queue := deque_append (queue self) r\<rparr>) r = (self2, out, raised)"
    by (cases "control e (self\<lparr>queue := deque_append (queue self) r\<rparr>) r") auto
  show ?thesis
  proof (cases "save_ok e")
    case True
    with Holds c have "commands (fst (snd (on_sensor e self message))) = commands out"
      by (simp add: on_sensor_def Let_def commands_append parse_errors_def)
    with c d show ?thesis by auto
  next
    case False
    with Holds show ?thesis
      by (simp add: on_sensor_def Let_def commands_append parse_errors_def)
  qed
qed

lemma commands_on_result: "commands (fst (snd (on_result e self message))) = []"
  by (simp add: on_result_def split: option.splits bool.splits)

lemma commands_on_message:
  "commands (snd (on_message e self m)) = []
   \<or> (\<exists>message. json_loads e (payload m) = Some message
          \<and> commands (snd (on_message e self m))
              = commands (fst (snd (on_sensor e self message))))"
proof (cases "json_loads e (payload m)")
  case None
  then show ?thesis by (simp add: on_message_def)
next
  case (Some message)
  show ?thesis
  proof (cases "topic m = ''tele/tasmota_9DA6D1/SENSOR''")
    case True
    obtain self1 out1 raised1 where s: "on_sensor e self message = (self1, out1, raised1)"
      by (cases "on_sensor e self message") auto
    have "commands (snd (on_message e self m)) = commands out1"
      unfolding on_message_sensor [OF True Some] s by (simp add: commands_append)
    with Some s show ?thesis by simp
  next
    case False
    obtain self2 out2 raised2 where s: "on_result e self message = (self2, out2, raised2)"
      by (cases "on_result e self message") auto
    have "commands out2 = []"
      using commands_on_result [of e self message] s by simp
    then have "commands (snd (on_message e self m)) = []"
      using False Some s by (simp add: on_message_def commands_append)
    then show ?thesis by simp
  qed
qed

text \<open>
  C5, as the code has it. Whatever the state and the message: the command ON is
  published only when the status is not ON; the command OFF is published only when the
  status is ON or the report is dated outside the comfort period, where OFF is asked
  for whatever the status is.
\<close>

theorem commands_and_status:
  "(''ON'' \<in> set (commands (snd (on_message e self m))) \<longrightarrow> status self \<noteq> PStr ''ON'')
   \<and> (''OFF'' \<in> set (commands (snd (on_message e self m))) \<longrightarrow>
        status self = PStr ''ON''
        \<or> (\<exists>message d. json_loads e (payload m) = Some message
               \<and> sensor_date e message = Some d \<and> \<not> is_confort d))"
proof -
  from commands_on_message [of e self m]
  consider "commands (snd (on_message e self m)) = []"
    | message where "json_loads e (payload m) = Some message"
        "commands (snd (on_message e self m)) = commands (fst (snd (on_sensor e self message)))"
    by blast
  then show ?thesis
  proof cases
    case 1
    then show ?thesis by simp
  next
    case (2 message)
    from commands_on_sensor [of e self message]
    consider "commands (fst (snd (on_sensor e self message))) = []"
      | r where "sensor_date e message = Some (date r)"
          "commands (fst (snd (on_sensor e self message)))
            = commands (fst (snd (control e (self\<lparr>queue := deque_append (queue self) r\<rparr>) r)))"
      by blast
    then show ?thesis
    proof cases
      case 1
      with 2 show ?thesis by simp
    next
      case (2 r)
      note sens = 2
      have eq: "commands (snd (on_message e self m))
                  = commands (fst (snd (control e (self\<lparr>queue := deque_append (queue self) r\<rparr>) r)))"
        using \<open>commands (snd (on_message e self m))
                 = commands (fst (snd (on_sensor e self message)))\<close> sens(2) by simp
      have on: "''ON'' \<in> set (commands (snd (on_message e self m))) \<longrightarrow> status self \<noteq> PStr ''ON''"
        unfolding eq commands_control by (auto split: if_splits option.splits)
      have off: "''OFF'' \<in> set (commands (snd (on_message e self m))) \<longrightarrow>
                   status self = PStr ''ON'' \<or> \<not> is_confort (date r)"
        unfolding eq commands_control by (auto split: if_splits option.splits)
      from on off sens(1) \<open>json_loads e (payload m) = Some message\<close> show ?thesis by blast
    qed
  qed
qed


lemma home_commands:
  "commands (snd (on_message (home 0) (client (PStr ''OFF'') False 0) (sensor_msg ''cold'')))
     = [''ON'']"
  "commands (snd (on_message (home 0) (client (PStr ''ON'') False 0) (sensor_msg ''warm'')))
     = [''OFF'']"
  "commands (snd (on_message (home 0) (client (PStr ''OFF'') False 0) (sensor_msg ''noon'')))
     = [''OFF'']"
proof -
  have t: "truthy (PFloat 21)" "truthy (PFloat 23)" "truthy (PFloat 50)" by simp_all
  show "commands (snd (on_message (home 0) (client (PStr ''OFF'') False 0) (sensor_msg ''cold'')))
     = [''ON'']"
    unfolding on_message_reading [OF topic_sensor_msg home_payloads(1) home_dates(1)
      telemetry_fields t(1) t(3) home_save_ok]
    by (simp add: control_def client_def home_timestamps home_fl confort_at_hour poweron_def
          py_lt_def consigne_def hyst_def)
  show "commands (snd (on_message (home 0) (client (PStr ''ON'') False 0) (sensor_msg ''warm'')))
     = [''OFF'']"
    unfolding on_message_reading [OF topic_sensor_msg home_payloads(2) home_dates(1)
      telemetry_fields t(2) t(3) home_save_ok]
    by (simp add: control_def client_def home_timestamps home_fl confort_at_hour poweroff_def
          py_gt_def consigne_def hyst_def)
  show "commands (snd (on_message (home 0) (client (PStr ''OFF'') False 0) (sensor_msg ''noon'')))
     = [''OFF'']"
    unfolding on_message_reading [OF topic_sensor_msg home_payloads(4) home_dates(2)
      telemetry_fields t(1) t(3) home_save_ok]
    by (simp add: control_def client_def home_timestamps home_fl confort_at_hour poweroff_def)
qed

theorem commands_and_status_witness:
  "''ON'' \<in> set (commands (snd (on_message (home 0) (client (PStr ''OFF'') False 0)
                                 (sensor_msg ''cold''))))
   \<and> status (client (PStr ''OFF'') False 0) \<noteq> PStr ''ON''
   \<and> ''OFF'' \<in> set (commands (snd (on_message (home 0) (client (PStr ''ON'') False 0)
                                    (sensor_msg ''warm''))))
   \<and> status (client (PStr ''ON'') False 0) = PStr ''ON''
   \<and> ''OFF'' \<in> set (commands (snd (on_message (home 0) (client (PStr ''OFF'') False 0)
                                    (sensor_msg ''noon''))))
   \<and> sensor_date (home 0) (telemetry ''2024-01-15T12:30:00'' (PFloat 21) (PFloat 50))
       = Some (at_hour 12)
   \<and> \<not> is_confort (at_hour 12)"
proof -
  have h1: "''ON'' \<in> set (commands (snd (on_message (home 0) (client (PStr ''OFF'') False 0)
                                 (sensor_msg ''cold''))))"
    by (simp add: home_commands)
  have h2: "''OFF'' \<in> set (commands (snd (on_message (home 0) (client (PStr ''ON'') False 0)
                                    (sensor_msg ''warm''))))"
    by (simp add: home_commands)
  have h3: "''OFF'' \<in> set (commands (snd (on_message (home 0) (client (PStr ''OFF'') False 0)
                                    (sensor_msg ''noon''))))"
    by (simp add: home_commands)
  from commands_and_status [of "home 0" "client (PStr ''OFF'') False 0" "sensor_msg ''cold''"] h1
  have c1: "status (client (PStr ''OFF'') False 0) \<noteq> PStr ''ON''"
    by blast
  have c2: "status (client (PStr ''ON'') False 0) = PStr ''ON''"
    by (simp add: client_def)
  from commands_and_status [of "home 0" "client (PStr ''OFF'') False 0" "sensor_msg ''noon''"]
    h3 c1
  have "\<exists>message d. json_loads (home 0) (payload (sensor_msg ''noon'')) = Some message
          \<and> sensor_date (home 0) message = Some d \<and> \<not> is_confort d"
    by blast
  then have c3: "sensor_date (home 0) (telemetry ''2024-01-15T12:30:00'' (PFloat 21) (PFloat 50))
                   = Some (at_hour 12) \<and> \<not> is_confort (at_hour 12)"
    by (auto simp: home_payloads home_dates)
  from h1 c1 h2 c2 h3 c3 show ?thesis by blast
qed

text \<open>
  C5 as stated fails outside the comfort period: with the status OFF, a report at 12:30
  publishes the command OFF again.
\<close>

theorem redundant_off_counterexample:
  "status (client (PStr ''OFF'') False 0) = PStr ''OFF''
   \<and> commands (snd (on_message (home 0) (client (PStr ''OFF'') False 0) (sensor_msg ''noon'')))
       = [''OFF'']"
proof -
  have s: "status (client (PStr ''OFF'') False 0) = PStr ''OFF''"
    by (simp add: client_def)
  from s home_commands(3) show ?thesis by blast
qed

subsection \<open>Reports that are dropped\<close>

text \<open>
  C10. A report whose temperature or humidity is the number 0 (the integer or the float)
  is dropped at line 129: the state and so the history are unchanged, nothing is written
  to the file, no command is published, neither the automatic mode nor the override is
  entered; and when the three fields are present, nothing but the message itself is
  logged.
\<close>

theorem zero_reading_dropped:
  assumes "topic m = ''tele/tasmota_9DA6D1/SENSOR''"
      and "json_loads e (payload m) = Some message"
      and "sensor_temperature message = Some (PInt 0)
           \<or> sensor_temperature message = Some (PFloat 0)
           \<or> sensor_humidity message = Some (PInt 0)
           \<or> sensor_humidity message = Some (PFloat 0)"
  shows "fst (on_message e self m) = self
       \<and> commands (snd (on_message e self m)) = []
       \<and> saved (snd (on_message e self m)) = []
       \<and> Log Not_forced \<notin> set (snd (on_message e self m))
       \<and> (\<forall>s n. Log (Manually_forced s n) \<notin> set (snd (on_message e self m)))
       \<and> (sensor_date e message \<noteq> None \<and> sensor_temperature message \<noteq> None
            \<and> sensor_humidity message \<noteq> None \<longrightarrow>
            snd (on_message e self m) = [Log (Debug_message (topic m) message)])"
proof -
  define g where "g = state_guard (sensor_temperature message) (sensor_humidity message)
                        (sensor_date e message)"
  have g: "g = Raises \<or> g = Skips"
    unfolding g_def using assms(3) by (rule state_guard_zero)
  note run = on_message_dropped [OF assms(1,2) g_def [symmetric] g]
  have st: "fst (on_message e self m) = self"
    unfolding run by simp
  have cm: "commands (snd (on_message e self m)) = []"
    unfolding run by (simp add: commands_append parse_errors_logs)
  have sv: "saved (snd (on_message e self m)) = []"
    unfolding run by (simp add: saved_append parse_errors_logs)
  have nf: "Log Not_forced \<notin> set (snd (on_message e self m))"
    unfolding run by (simp add: parse_errors_logs)
  have mf: "\<forall>s n. Log (Manually_forced s n) \<notin> set (snd (on_message e self m))"
    unfolding run by (simp add: parse_errors_logs)
  have silent: "snd (on_message e self m) = [Log (Debug_message (topic m) message)]"
    if "sensor_date e message \<noteq> None" "sensor_temperature message \<noteq> None"
       "sensor_humidity message \<noteq> None"
  proof -
    have "g = Skips"
      unfolding g_def using assms(3) that by (rule state_guard_zero_bound)
    moreover have "parse_errors e message = []"
      using that by (simp add: parse_errors_def)
    ultimately show ?thesis unfolding run by simp
  qed
  from st cm sv nf mf silent show ?thesis by blast
qed

theorem zero_reading_dropped_witness:
  "sensor_temperature (telemetry ''2024-01-15T06:30:00'' (PFloat 0) (PFloat 50))
     = Some (PFloat 0)
   \<and> sensor_date (home 0) (telemetry ''2024-01-15T06:30:00'' (PFloat 0) (PFloat 50)) \<noteq> None
   \<and> sensor_humidity (telemetry ''2024-01-15T06:30:00'' (PFloat 0) (PFloat 50)) \<noteq> None
   \<and> fst (on_message (home 0) (client (PStr ''OFF'') False 0) (sensor_msg ''zero''))
       = client (PStr ''OFF'') False 0
   \<and> snd (on_message (home 0) (client (PStr ''OFF'') False 0) (sensor_msg ''zero''))
       = [Log (Debug_message ''tele/tasmota_9DA6D1/SENSOR''
                 (telemetry ''2024-01-15T06:30:00'' (PFloat 0) (PFloat 50)))]"
proof -
  let ?message = "telemetry ''2024-01-15T06:30:00'' (PFloat 0) (PFloat 50)"
  have z: "sensor_temperature ?message = Some (PInt 0)
           \<or> sensor_temperature ?message = Some (PFloat 0)
           \<or> sensor_humidity ?message = Some (PInt 0)
           \<or> sensor_humidity ?message = Some (PFloat 0)"
    by (simp add: telemetry_fields)
  have t: "sensor_temperature ?message = Some (PFloat 0)"
    by (simp add: telemetry_fields)
  have b: "sensor_date (home 0) ?message \<noteq> None" "sensor_temperature ?message \<noteq> None"
    "sensor_humidity ?message \<noteq> None"
    by (simp_all add: telemetry_fields home_dates)
  note r = zero_reading_dropped [OF topic_sensor_msg home_payloads(5) z,
      where self = "client (PStr ''OFF'') False 0"]
  from r have c1: "fst (on_message (home 0) (client (PStr ''OFF'') False 0) (sensor_msg ''zero''))
       = client (PStr ''OFF'') False 0"
    by blast
  from r b have c2: "snd (on_message (home 0) (client (PStr ''OFF'') False 0) (sensor_msg ''zero''))
       = [Log (Debug_message ''tele/tasmota_9DA6D1/SENSOR'' ?message)]"
    by (simp add: topic_sensor_msg)
  from t b c1 c2 show ?thesis by blast
qed

text \<open>
  C7, as the code has it. A report whose payload does not decode, or whose time stamp is
  missing or does not parse, or whose temperature or humidity entry is missing, is
  logged and discarded: the state (history, status, awaited command, time of the last
  forced change) is unchanged, nothing is written to the file, no command is published,
  and an error line is logged. The callback returns in every case: each exception of
  its body ends in the outer handler.
\<close>

theorem incomplete_telemetry_discarded:
  assumes "topic m = ''tele/tasmota_9DA6D1/SENSOR''"
      and "case json_loads e (payload m) of
             None \<Rightarrow> True
           | Some message \<Rightarrow>
               sensor_date e message = None \<or> sensor_temperature message = None
               \<or> sensor_humidity message = None"
  shows "fst (on_message e self m) = self
       \<and> commands (snd (on_message e self m)) = []
       \<and> saved (snd (on_message e self m)) = []
       \<and> (Log Error_occured \<in> set (snd (on_message e self m))
          \<or> Log Error_timestamp \<in> set (snd (on_message e self m))
          \<or> Log Error_temperature \<in> set (snd (on_message e self m))
          \<or> Log Error_humidity \<in> set (snd (on_message e self m)))"
proof (cases "json_loads e (payload m)")
  case None
  then show ?thesis by (simp add: on_message_def)
next
  case (Some message)
  with assms(2)
  have miss: "sensor_date e message = None \<or> sensor_temperature message = None
              \<or> sensor_humidity message = None"
    by simp
  define g where "g = state_guard (sensor_temperature message) (sensor_humidity message)
                        (sensor_date e message)"
  have g: "g = Raises \<or> g = Skips"
    unfolding g_def using miss by (rule state_guard_unbound)
  note run = on_message_dropped [OF assms(1) Some g_def [symmetric] g]
  have st: "fst (on_message e self m) = self"
    unfolding run by simp
  have cm: "commands (snd (on_message e self m)) = []"
    unfolding run by (simp add: commands_append parse_errors_logs)
  have sv: "saved (snd (on_message e self m)) = []"
    unfolding run by (simp add: saved_append parse_errors_logs)
  have lg: "Log Error_timestamp \<in> set (snd (on_message e self m))
          \<or> Log Error_temperature \<in> set (snd (on_message e self m))
          \<or> Log Error_humidity \<in> set (snd (on_message e self m))"
    unfolding run using parse_errors_unbound [OF miss] by auto
  from st cm sv lg show ?thesis by blast
qed


theorem incomplete_telemetry_discarded_witness:
  "sensor_date (home 0)
     (PDict [(''SI7021'', PDict [(''Temperature'', PFloat 21), (''Humidity'', PFloat 50)])])
     = None
   \<and> fst (on_message (home 0) (client (PStr ''OFF'') False 0) (sensor_msg ''undated''))
       = client (PStr ''OFF'') False 0
   \<and> commands (snd (on_message (home 0) (client (PStr ''OFF'') False 0) (sensor_msg ''undated'')))
       = []
   \<and> saved (snd (on_message (home 0) (client (PStr ''OFF'') False 0) (sensor_msg ''undated'')))
       = []
   \<and> json_loads (home 0) (payload (sensor_msg ''garbage'')) = None
   \<and> fst (on_message (home 0) (client (PStr ''OFF'') False 0) (sensor_msg ''garbage''))
       = client (PStr ''OFF'') False 0
   \<and> commands (snd (on_message (home 0) (client (PStr ''OFF'') False 0) (sensor_msg ''garbage'')))
       = []"
proof -
  have h1: "case json_loads (home 0) (payload (sensor_msg ''undated'')) of
              None \<Rightarrow> True
            | Some message \<Rightarrow>
                sensor_date (home 0) message = None \<or> sensor_temperature message = None
                \<or> sensor_humidity message = None"
    by (simp add: home_undated)
  have h2: "case json_loads (home 0) (payload (sensor_msg ''garbage'')) of
              None \<Rightarrow> True
            | Some message \<Rightarrow>
                sensor_date (home 0) message = None \<or> sensor_temperature message = None
                \<or> sensor_humidity message = None"
    by (simp add: home_undated)
  note a = incomplete_telemetry_discarded [OF topic_sensor_msg h1,
      where self = "client (PStr ''OFF'') False 0"]
  note b = incomplete_telemetry_discarded [OF topic_sensor_msg h2,
      where self = "client (PStr ''OFF'') False 0"]
  from a b home_undated(2,3) [of 0] show ?thesis by blast
qed

text \<open>
  C7 as stated fails for a temperature that is present and is not a number: no
  \<^verbatim>\<open>try\<close> block looks at the type of the value. The report is appended to the history
  and saved, and outside the comfort period the command OFF is published and the flag of
  the awaited command is set.
\<close>

theorem text_temperature_counterexample:
  "malformed_spec (home 0) (telemetry ''2024-01-15T12:30:00'' (PStr ''hot'') (PFloat 50))
   \<and> on_message (home 0) (client (PStr ''ON'') False 0) (sensor_msg ''text'')
       = (\<lparr>queue = [\<lparr>date = at_hour 12, temperature = PStr ''hot'', humidity = PFloat 50\<rparr>],
           status = PStr ''ON'', command_sent = True, forced_ts = 0\<rparr>,
          [Log (Debug_message ''tele/tasmota_9DA6D1/SENSOR''
                  (telemetry ''2024-01-15T12:30:00'' (PStr ''hot'') (PFloat 50))),
           Log (Info_reading
                  \<lparr>date = at_hour 12, temperature = PStr ''hot'', humidity = PFloat 50\<rparr>),
           Save_states
             [\<lparr>date = at_hour 12, temperature = PStr ''hot'', humidity = PFloat 50\<rparr>],
           Log Not_forced,
           Log Asking_power_OFF,
           Publish ''cmnd/tasmota_9DA6D1/POWER'' ''OFF''])"
proof -
  have t: "truthy (PStr ''hot'')" "truthy (PFloat 50)" by simp_all
  have spec: "malformed_spec (home 0)
                (telemetry ''2024-01-15T12:30:00'' (PStr ''hot'') (PFloat 50))"
    by (simp add: malformed_spec_def telemetry_fields)
  have code: "on_message (home 0) (client (PStr ''ON'') False 0) (sensor_msg ''text'')
       = (\<lparr>queue = [\<lparr>date = at_hour 12, temperature = PStr ''hot'', humidity = PFloat 50\<rparr>],
           status = PStr ''ON'', command_sent = True, forced_ts = 0\<rparr>,
          [Log (Debug_message ''tele/tasmota_9DA6D1/SENSOR''
                  (telemetry ''2024-01-15T12:30:00'' (PStr ''hot'') (PFloat 50))),
           Log (Info_reading
                  \<lparr>date = at_hour 12, temperature = PStr ''hot'', humidity = PFloat 50\<rparr>),
           Save_states
             [\<lparr>date = at_hour 12, temperature = PStr ''hot'', humidity = PFloat 50\<rparr>],
           Log Not_forced,
           Log Asking_power_OFF,
           Publish ''cmnd/tasmota_9DA6D1/POWER'' ''OFF''])"
    unfolding on_message_reading [OF topic_sensor_msg home_payloads(6) home_dates(2)
      telemetry_fields t home_save_ok]
    by (simp add: control_def client_def home_timestamps home_fl confort_at_hour poweroff_def
          deque_append_def maxlen_def topic_sensor_msg)
  from spec code show ?thesis by blast
qed

subsection \<open>The first power result\<close>

text \<open>
  A message that is not a power result leaves the status and the time of the last
  forced change as they are and never clears the flag of the awaited command.
\<close>

lemma on_sensor_flags:
  "status (fst (on_sensor e self message)) = status self
   \<and> forced_ts (fst (on_sensor e self message)) = forced_ts self
   \<and> (command_sent self \<longrightarrow> command_sent (fst (on_sensor e self message)))"
proof (cases "state_guard (sensor_temperature message) (sensor_humidity message)
                (sensor_date e message)")
  case (Holds r)
  then show ?thesis
    using control_flags [of e "self\<lparr>queue := deque_append (queue self) r\<rparr>" r]
    by (auto simp: on_sensor_def Let_def split: prod.splits)
qed (simp_all add: on_sensor_def)

lemma on_message_flags:
  assumes "\<not> power_result e m"
  shows "status (fst (on_message e self m)) = status self
       \<and> forced_ts (fst (on_message e self m)) = forced_ts self
       \<and> (command_sent self \<longrightarrow> command_sent (fst (on_message e self m)))"
proof (cases "json_loads e (payload m)")
  case None
  then show ?thesis by (simp add: on_message_def)
next
  case (Some message)
  show ?thesis
  proof (cases "topic m = ''tele/tasmota_9DA6D1/SENSOR''")
    case True
    then have "fst (on_message e self m) = fst (on_sensor e self message)"
      using Some by (simp add: on_message_def split: prod.splits)
    then show ?thesis using on_sensor_flags [of e self message] by simp
  next
    case False
    show ?thesis
    proof (cases "topic m = ''stat/tasmota_9DA6D1/RESULT''")
      case True
      with assms Some have "py_in ''POWER'' message \<noteq> Some True"
        by (simp add: power_result_def)
      then have "fst (on_result e self message) = self"
        by (auto simp: on_result_def split: option.splits bool.splits)
      then have "fst (on_message e self m) = self"
        using True False Some by (auto simp: on_message_def split: prod.splits)
      then show ?thesis by simp
    next
      case other: False
      with False Some have "fst (on_message e self m) = self"
        by (simp add: on_message_def)
      then show ?thesis by simp
    qed
  qed
qed

lemma run_flags:
  assumes "\<forall>(e, m) \<in> set pre. \<not> power_result e m"
      and "command_sent self"
  shows "status (run self pre) = status self
       \<and> forced_ts (run self pre) = forced_ts self
       \<and> command_sent (run self pre)"
  using assms
proof (induction pre arbitrary: self)
  case Nil
  then show ?case by simp
next
  case (Cons em pre)
  obtain e m where em: "em = (e, m)" by (cases em) auto
  from Cons.prems(1) em have np: "\<not> power_result e m" by simp
  from Cons.prems(1) have rest: "\<forall>(e, m) \<in> set pre. \<not> power_result e m" by simp
  note step = on_message_flags [OF np, of self]
  from step Cons.prems(2) have sent: "command_sent (fst (on_message e self m))" by blast
  from Cons.IH [OF rest sent] step show ?case
    unfolding em by simp
qed

text \<open>
  C9. The client starts with the status unknown, no command awaited and no forced
  change; \<open>on_connect\<close> sets the flag of the awaited command. Whatever messages
  follow that are not power results, the first power result, reporting the state \<open>s\<close>,
  is taken as the answer to the client's own request: the flag is cleared, the status
  becomes \<open>s\<close>, and the time of the last forced change is still 0, so no override starts.
\<close>

theorem first_result_is_own:
  assumes "\<forall>(e', m') \<in> set pre. \<not> power_result e' m'"
      and "topic m = ''stat/tasmota_9DA6D1/RESULT''"
      and "json_loads e (payload m) = Some (PDict kvs)"
      and "map_of kvs ''POWER'' = Some s"
  shows "status (init f) = PNone \<and> \<not> command_sent (init f) \<and> forced_ts (init f) = 0
       \<and> command_sent (fst (on_connect (init f)))
       \<and> fst (on_message e (run (fst (on_connect (init f))) pre) m)
           = (run (fst (on_connect (init f))) pre)\<lparr>command_sent := False, status := s\<rparr>
       \<and> status (fst (on_message e (run (fst (on_connect (init f))) pre) m)) = s
       \<and> forced_ts (fst (on_message e (run (fst (on_connect (init f))) pre) m)) = 0"
proof -
  let ?c = "fst (on_connect (init f))"
  have i: "status (init f) = PNone" "\<not> command_sent (init f)" "forced_ts (init f) = 0"
    by (simp_all add: init_def)
  have c: "command_sent ?c" "forced_ts ?c = 0"
    by (simp_all add: on_connect_def init_def)
  from run_flags [OF assms(1) c(1)] c(2)
  have b: "command_sent (run ?c pre)" "forced_ts (run ?c pre) = 0"
    by simp_all
  have "''POWER'' \<in> fst ` set kvs"
    using assms(4) by (metis map_of_eq_None_iff option.distinct(1))
  then have mem: "py_in ''POWER'' (PDict kvs) = Some True" by simp
  have sub: "subscript (PDict kvs) ''POWER'' = Some s" using assms(4) by simp
  have r: "fst (on_message e (run ?c pre) m) = (run ?c pre)\<lparr>command_sent := False, status := s\<rparr>"
    using assms(2,3) mem sub b(1) by (simp add: on_message_def on_result_def)
  have r1: "status (fst (on_message e (run ?c pre) m)) = s"
    unfolding r by simp
  have r2: "forced_ts (fst (on_message e (run ?c pre) m)) = 0"
    unfolding r using b(2) by simp
  from i c(1) r r1 r2 show ?thesis by blast
qed

theorem first_result_is_own_witness:
  "\<not> power_result (home 1705300201) (sensor_msg ''cold'')
   \<and> \<not> power_result (home 1705321801) (sensor_msg ''noon'')
   \<and> status (fst (on_message (home 1705321802)
                (run (fst (on_connect (init None)))
                   [(home 1705300201, sensor_msg ''cold''),
                    (home 1705321801, sensor_msg ''noon'')])
                (result_msg ''off''))) = PStr ''OFF''
   \<and> forced_ts (fst (on_message (home 1705321802)
                (run (fst (on_connect (init None)))
                   [(home 1705300201, sensor_msg ''cold''),
                    (home 1705321801, sensor_msg ''noon'')])
                (result_msg ''off''))) = 0"
proof -
  have pre: "\<forall>(e', m') \<in> set [(home 1705300201, sensor_msg ''cold''),
                       (home 1705321801, sensor_msg ''noon'')]. \<not> power_result e' m'"
    by (simp add: power_result_def sensor_msg_def)
  have t: "topic (result_msg ''off'') = ''stat/tasmota_9DA6D1/RESULT''"
    by (simp add: result_msg_def)
  have off: "json_loads (home 1705321802) (payload (result_msg ''off''))
               = Some (PDict [(''POWER'', PStr ''OFF'')])"
    by (simp add: home_def host_def result_msg_def result_def)
  have k: "map_of [(''POWER'', PStr ''OFF'')] ''POWER'' = Some (PStr ''OFF'')"
    by simp
  have np: "\<not> power_result (home 1705300201) (sensor_msg ''cold'')"
    "\<not> power_result (home 1705321801) (sensor_msg ''noon'')"
    using pre by simp_all
  from first_result_is_own [OF pre t off k, of None] np show ?thesis by blast
qed

end
